theory Spec2Isabelle
  imports Complex_Main
begin

section \<open>Python floats\<close>

text \<open>
  A Python \<^verbatim>\<open>float\<close> is an IEEE 754 double: \<open>Finite r\<close> is the double of value \<open>r\<close>
  (\<open>Finite 0\<close> is \<^verbatim>\<open>0.0\<close>), \<open>NegZero\<close> is \<^verbatim>\<open>-0.0\<close>. Every operation computes the
  exact result and rounds it to the nearest double, ties to even (\<open>round_double\<close>: 53
  significant bits, exponents from -1022 to 1023, subnormals in steps of 2 to the power
  -1074, overflow to infinity). Only the operations that the services apply to floats
  are defined: \<^verbatim>\<open>float * int\<close>, \<^verbatim>\<open>float - float\<close>, \<^verbatim>\<open>abs\<close>, \<^verbatim>\<open>>\<close> and the literal
  \<^verbatim>\<open>0.01\<close>. Converting an \<^verbatim>\<open>int\<close> that is too large for a double raises
  \<^verbatim>\<open>OverflowError\<close> (\<open>None\<close>).
\<close>

datatype pyfloat = Finite rat | NegZero | PosInf | NegInf | NaN

function bit_length :: "int \<Rightarrow> int" where
  "bit_length n = (if n \<le> 0 then 0 else 1 + bit_length (n div 2))"
  by pat_completeness auto
termination
  by (relation "measure nat") auto

declare bit_length.simps [simp del]

definition pow2 :: "int \<Rightarrow> rat" where
  "pow2 e = (if 0 \<le> e then 2 ^ nat e else 1 / 2 ^ nat (- e))"

definition floor_log2 :: "rat \<Rightarrow> int" where
  "floor_log2 r =
     (if 1 \<le> r then bit_length \<lfloor>r\<rfloor> - 1
      else - bit_length (\<lceil>1 / r\<rceil> - 1))"

definition round_half_even :: "rat \<Rightarrow> int" where
  "round_half_even x =
     (let f = \<lfloor>x\<rfloor>; d = x - of_int f
      in if d < 1 / 2 then f else if 1 / 2 < d then f + 1 else if even f then f else f + 1)"

definition round_double :: "rat \<Rightarrow> pyfloat" where
  "round_double r =
     (if r = 0 then Finite 0
      else let e = max (floor_log2 \<bar>r\<bar>) (- 1022);
               ulp = pow2 (e - 52);
               n = round_half_even (\<bar>r\<bar> / ulp)
           in if 1024 \<le> e \<or> (e = 1023 \<and> n = 2 ^ 53)
              then (if 0 < r then PosInf else NegInf)
              else if n = 0 then (if 0 < r then Finite 0 else NegZero)
              else Finite (if 0 < r then of_int n * ulp else - (of_int n * ulp)))"

fun float_value :: "pyfloat \<Rightarrow> rat" where
  "float_value (Finite r) = r"
| "float_value _ = 0"

fun is_inf :: "pyfloat \<Rightarrow> bool" where
  "is_inf PosInf = True"
| "is_inf NegInf = True"
| "is_inf _ = False"

fun is_zero :: "pyfloat \<Rightarrow> bool" where
  "is_zero (Finite r) = (r = 0)"
| "is_zero NegZero = True"
| "is_zero _ = False"

fun sign_bit :: "pyfloat \<Rightarrow> bool" where
  "sign_bit (Finite r) = (r < 0)"
| "sign_bit NegZero = True"
| "sign_bit NegInf = True"
| "sign_bit _ = False"

definition float_mul :: "pyfloat \<Rightarrow> pyfloat \<Rightarrow> pyfloat" where
  "float_mul x y =
     (if x = NaN \<or> y = NaN then NaN
      else if is_inf x \<or> is_inf y
      then (if is_zero x \<or> is_zero y then NaN
            else if sign_bit x \<noteq> sign_bit y then NegInf else PosInf)
      else if is_zero x \<or> is_zero y
      then (if sign_bit x \<noteq> sign_bit y then NegZero else Finite 0)
      else round_double (float_value x * float_value y))"

definition float_sub :: "pyfloat \<Rightarrow> pyfloat \<Rightarrow> pyfloat" where
  "float_sub x y =
     (if x = NaN \<or> y = NaN then NaN
      else if is_inf x then (if y = x then NaN else x)
      else if is_inf y then (if y = PosInf then NegInf else PosInf)
      else let d = float_value x - float_value y
           in if d = 0 then (if x = NegZero \<and> y = Finite 0 then NegZero else Finite 0)
              else round_double d)"

fun float_abs :: "pyfloat \<Rightarrow> pyfloat" where
  "float_abs (Finite r) = Finite \<bar>r\<bar>"
| "float_abs NegZero = Finite 0"
| "float_abs PosInf = PosInf"
| "float_abs NegInf = PosInf"
| "float_abs NaN = NaN"

definition float_gt :: "pyfloat \<Rightarrow> pyfloat \<Rightarrow> bool" where
  "float_gt x y =
     (if x = NaN \<or> y = NaN then False
      else if x = PosInf then y \<noteq> PosInf
      else if y = NegInf then x \<noteq> NegInf
      else if x = NegInf \<or> y = PosInf then False
      else float_value x > float_value y)"

definition float_of_int :: "int \<Rightarrow> pyfloat option" where
  "float_of_int n =
     (case round_double (of_int n) of
        PosInf \<Rightarrow> None
      | NegInf \<Rightarrow> None
      | x \<Rightarrow> Some x)"

definition float_mul_int :: "pyfloat \<Rightarrow> int \<Rightarrow> pyfloat option" where
  "float_mul_int x n = (case float_of_int n of None \<Rightarrow> None | Some y \<Rightarrow> Some (float_mul x y))"

definition tolerance :: pyfloat where
  "tolerance = round_double (1 / 100)"


section \<open>Data model (app/models)\<close>

text \<open>
  The SQLAlchemy models of \<^verbatim>\<open>app/models\<close>. Integer columns are Python/SQL integers
  (\<open>int\<close>), \<^verbatim>\<open>Float\<close> columns hold the Python float that the ORM hands over
  (\<open>pyfloat\<close>; the precision in which the database keeps it is the database's),
  strings are \<open>string\<close>. Columns that no service function of the
  transfer engine reads or writes (e-mail, password hash, model name, material, image
  URL, the server-side timestamps) are left out.
\<close>

datatype AvailabilityStatus = IN_STOCK | OUT_OF_STOCK

record User =
  user_id :: int
  username :: string
  role :: string

record Blanket =
  stock :: int
  production_capacity :: int

record ProductForSale =
  pfs_id :: int
  pfs_seller_id :: int
  pfs_blanket_id :: int
  price :: pyfloat
  pfs_quantity :: int
  availability :: AvailabilityStatus

record DistributorOrder =
  do_distributor_id :: int
  do_blanket_id :: int
  do_quantity :: int

record SellerOrder =
  so_seller_id :: int
  so_distributor_id :: int
  so_blanket_id :: int
  so_quantity :: int

record CustomerOrder =
  co_customer_name :: string
  co_seller_name :: string
  co_blanket_id :: int
  co_quantity :: int
  co_status :: string
  co_total_value :: "pyfloat option"

text \<open>
  The database. \<^verbatim>\<open>blankets\<close> is keyed by its primary key; \<^verbatim>\<open>distributor_stock\<close> and
  \<^verbatim>\<open>seller_inventory\<close> carry a unique constraint on (owner name, blanket id) and are
  only ever looked up by that pair, so they are maps from the pair to the quantity
  column. \<^verbatim>\<open>users\<close>, \<^verbatim>\<open>products_for_sale\<close> and the three order tables are row lists in
  insertion order; \<^verbatim>\<open>.first()\<close> is \<open>find\<close>. The auto-increment primary key of a new
  row is modelled as its position in the table.
\<close>

record database =
  users :: "User list"
  blankets :: "int \<rightharpoonup> Blanket"
  distributor_stock :: "(string \<times> int) \<rightharpoonup> int"
  seller_inventory :: "(string \<times> int) \<rightharpoonup> int"
  products_for_sale :: "ProductForSale list"
  distributor_orders :: "DistributorOrder list"
  seller_orders :: "SellerOrder list"
  customer_orders :: "CustomerOrder list"

section \<open>Sessions (app/core/database.py)\<close>

text \<open>
  A SQLAlchemy session (\<^verbatim>\<open>autocommit=False, autoflush=False\<close>): \<open>committed\<close> is what the
  database holds, \<open>pending\<close> is the session's view, that is the committed rows with the
  attribute changes and \<^verbatim>\<open>db.add\<close> calls not yet committed. \<^verbatim>\<open>db.commit()\<close> writes the
  view to the database; \<^verbatim>\<open>db.close()\<close> drops what was not committed. \<^verbatim>\<open>get_db\<close> opens a
  session for one request, hands it to the handler and closes it in its \<^verbatim>\<open>finally\<close>.
\<close>

record session =
  committed :: database
  pending :: database

definition commit :: "session \<Rightarrow> session" where
  "commit s = s\<lparr>committed := pending s\<rparr>"

definition close :: "session \<Rightarrow> session" where
  "close s = s\<lparr>pending := committed s\<rparr>"

definition SessionLocal :: "database \<Rightarrow> session" where
  "SessionLocal db = \<lparr>committed = db, pending = db\<rparr>"

definition get_db :: "(session \<Rightarrow> 'a \<times> session) \<Rightarrow> database \<Rightarrow> 'a \<times> database" where
  "get_db handler db =
     (case handler (SessionLocal db) of (r, s) \<Rightarrow> (r, committed (close s)))"

section \<open>Errors\<close>

text \<open>
  Every \<^verbatim>\<open>raise ValueError(...)\<close> of the services and every \<^verbatim>\<open>HTTPException(400, ...)\<close>
  that \<^verbatim>\<open>customer_purchase\<close> raises itself, one constructor per message, with the
  numbers the message prints; \<open>IntTooLargeForFloat\<close> is the \<^verbatim>\<open>OverflowError\<close> of
  \<^verbatim>\<open>price * quantity\<close>.
\<close>

datatype error =
    BlanketNotFound
  | InsufficientManufacturerStock int int
  | SellerNotFound string
  | DistributorNotFound string
  | NoDistributorStock string int
  | InsufficientDistributorStock int int
  | NoSellerInventory string int
  | InsufficientSellerInventory int int
  | TotalValueMismatch pyfloat pyfloat
  | IntTooLargeForFloat
  | NoInventoryForBlanket int
  | ProductAlreadyExists int
  | NoProductForSale int
  | NotAvailableForSale int string
  | ProductOutOfStock
  | InsufficientQuantityAvailable int int

section \<open>Manufacturer service (app/services/manufacturer_service.py)\<close>

record DistributorOrderResult =
  manufacturer_remaining_stock :: int
  res_distributor_stock :: int
  do_processed_quantity :: int
  order_id :: int

record StockAvailability =
  available :: bool
  current_stock :: int

definition update_blanket_stock ::
  "session \<Rightarrow> int \<Rightarrow> int \<Rightarrow> Blanket option \<times> session" where
  "update_blanket_stock s blanket_id quantity =
     (let db = pending s in
      case blankets db blanket_id of
        None \<Rightarrow> (None, s)
      | Some blanket \<Rightarrow>
          let blanket' = blanket\<lparr>stock := quantity\<rparr>;
              db' = db\<lparr>blankets := (blankets db)(blanket_id \<mapsto> blanket')\<rparr>
          in (Some blanket', commit (s\<lparr>pending := db'\<rparr>)))"

definition process_distributor_order ::
  "session \<Rightarrow> int \<Rightarrow> int \<Rightarrow> string \<Rightarrow> User \<Rightarrow> (error + DistributorOrderResult) \<times> session" where
  "process_distributor_order s blanket_id quantity distributor_name user =
     (let db = pending s in
      case blankets db blanket_id of
        None \<Rightarrow> (Inl BlanketNotFound, s)
      | Some blanket \<Rightarrow>
          if stock blanket < quantity
          then (Inl (InsufficientManufacturerStock (stock blanket) quantity), s)
          else
            let blanket' = blanket\<lparr>stock := stock blanket - quantity\<rparr>;
                db1 = db\<lparr>blankets := (blankets db)(blanket_id \<mapsto> blanket')\<rparr>;
                dq = (case distributor_stock db1 (distributor_name, blanket_id) of
                        Some q0 \<Rightarrow> q0 + quantity
                      | None \<Rightarrow> quantity);
                db2 = db1\<lparr>distributor_stock :=
                        (distributor_stock db1)((distributor_name, blanket_id) \<mapsto> dq)\<rparr>;
                distributor_order = \<lparr>do_distributor_id = user_id user,
                                     do_blanket_id = blanket_id,
                                     do_quantity = quantity\<rparr>;
                db3 = db2\<lparr>distributor_orders := distributor_orders db2 @ [distributor_order]\<rparr>;
                s' = commit (s\<lparr>pending := db3\<rparr>)
            in (Inr \<lparr>manufacturer_remaining_stock = stock blanket',
                     res_distributor_stock = dq,
                     do_processed_quantity = quantity,
                     order_id = int (length (distributor_orders db3))\<rparr>, s'))"

definition check_stock_availability ::
  "session \<Rightarrow> int \<Rightarrow> int \<Rightarrow> StockAvailability \<times> session" where
  "check_stock_availability s blanket_id required_quantity =
     (case blankets (pending s) blanket_id of
        None \<Rightarrow> (\<lparr>available = False, current_stock = 0\<rparr>, s)
      | Some blanket \<Rightarrow>
          if stock blanket \<ge> required_quantity
          then (\<lparr>available = True, current_stock = stock blanket\<rparr>, s)
          else (\<lparr>available = False, current_stock = stock blanket\<rparr>, s))"

section \<open>Request payloads (app/schemas)\<close>

record DistributorStockCreate =
  dsc_blanket_id :: int
  dsc_quantity :: int

record StockRequest =
  sr_seller_name :: string
  sr_blanket_id :: int
  sr_quantity :: int

record CustomerPurchase =
  cp_customer_name :: string
  cp_seller_name :: string
  cp_blanket_id :: int
  cp_quantity :: int
  cp_total_value :: "pyfloat option"

text \<open>\<^verbatim>\<open>availability: Optional[AvailabilityStatus] = AvailabilityStatus.IN_STOCK\<close>: the
  field as the handler receives it, \<open>None\<close> when the caller sent \<^verbatim>\<open>null\<close>.\<close>

record ProductForSaleCreate =
  pc_blanket_id :: int
  pc_price :: pyfloat
  pc_availability :: "AvailabilityStatus option"

record StockOperationResponse =
  success :: bool
  remaining_stock :: int
  processed_quantity :: int
  total_value :: "pyfloat option"

section \<open>Listings (app/services/seller_service.py)\<close>

text \<open>Assigning to the attributes of the row object that \<^verbatim>\<open>.first()\<close> returned: the first
  row that satisfies the filter is replaced by its updated copy.

  \<^verbatim>\<open>update_product_for_sale\<close> is not part of this development. It assigns the
  availability enum of the request schema (values \<^verbatim>\<open>'In stock'\<close>, \<^verbatim>\<open>'Out of stock'\<close>) to a
  column typed with the enum of the model (names \<^verbatim>\<open>IN_STOCK\<close>, \<^verbatim>\<open>OUT_OF_STOCK\<close>), which
  the column does not accept; no operation below depends on it.\<close>

fun update_first :: "('a \<Rightarrow> bool) \<Rightarrow> 'a \<Rightarrow> 'a list \<Rightarrow> 'a list" where
  "update_first P y [] = []"
| "update_first P y (x # xs) = (if P x then y # xs else x # update_first P y xs)"

definition get_product_for_sale_by_seller_and_blanket ::
  "session \<Rightarrow> string \<Rightarrow> int \<Rightarrow> ProductForSale option" where
  "get_product_for_sale_by_seller_and_blanket s seller_name blanket_id =
     (let db = pending s in
      case find (\<lambda>u. username u = seller_name) (users db) of
        None \<Rightarrow> None
      | Some seller \<Rightarrow>
          find (\<lambda>p. pfs_seller_id p = user_id seller \<and> pfs_blanket_id p = blanket_id)
            (products_for_sale db))"

definition create_product_for_sale ::
  "session \<Rightarrow> string \<Rightarrow> ProductForSaleCreate \<Rightarrow> (error + ProductForSale) \<times> session" where
  "create_product_for_sale s seller_username data =
     (let db = pending s in
      case find (\<lambda>u. username u = seller_username) (users db) of
        None \<Rightarrow> (Inl (SellerNotFound seller_username), s)
      | Some seller \<Rightarrow>
         (case seller_inventory db (seller_username, pc_blanket_id data) of
            None \<Rightarrow> (Inl (NoInventoryForBlanket (pc_blanket_id data)), s)
          | Some inventory_quantity \<Rightarrow>
             (case find (\<lambda>p. pfs_seller_id p = user_id seller
                              \<and> pfs_blanket_id p = pc_blanket_id data)
                        (products_for_sale db) of
                Some existing_product \<Rightarrow> (Inl (ProductAlreadyExists (pc_blanket_id data)), s)
              | None \<Rightarrow>
                  let availability' = (if inventory_quantity > 0 then IN_STOCK else OUT_OF_STOCK);
                      product = \<lparr>pfs_id = int (length (products_for_sale db)) + 1,
                                 pfs_seller_id = user_id seller,
                                 pfs_blanket_id = pc_blanket_id data,
                                 price = pc_price data,
                                 pfs_quantity = inventory_quantity,
                                 availability = availability'\<rparr>;
                      db' = db\<lparr>products_for_sale := products_for_sale db @ [product]\<rparr>
                  in (Inr product, commit (s\<lparr>pending := db'\<rparr>)))))"

definition sync_product_quantity_with_inventory ::
  "session \<Rightarrow> string \<Rightarrow> int \<Rightarrow> (error + ProductForSale) \<times> session" where
  "sync_product_quantity_with_inventory s seller_username blanket_id =
     (let db = pending s in
      case find (\<lambda>u. username u = seller_username) (users db) of
        None \<Rightarrow> (Inl (SellerNotFound seller_username), s)
      | Some seller \<Rightarrow>
         (case seller_inventory db (seller_username, blanket_id) of
            None \<Rightarrow> (Inl (NoInventoryForBlanket blanket_id), s)
          | Some inventory_quantity \<Rightarrow>
             (let flt = (\<lambda>p. pfs_seller_id p = user_id seller \<and> pfs_blanket_id p = blanket_id) in
              case find flt (products_for_sale db) of
                None \<Rightarrow> (Inl (NoProductForSale blanket_id), s)
              | Some product \<Rightarrow>
                  let product1 = product\<lparr>pfs_quantity := inventory_quantity\<rparr>;
                      product2 =
                        (if inventory_quantity = 0
                         then product1\<lparr>availability := OUT_OF_STOCK\<rparr>
                         else if availability product1 = OUT_OF_STOCK \<and> inventory_quantity > 0
                         then product1\<lparr>availability := IN_STOCK\<rparr>
                         else product1);
                      db' = db\<lparr>products_for_sale := update_first flt product2 (products_for_sale db)\<rparr>
                  in (Inr product2, commit (s\<lparr>pending := db'\<rparr>)))))"

text \<open>\<^verbatim>\<open>try: sync_product_quantity_with_inventory(...) except ValueError: pass\<close>, as the
  three callers write it: the outcome of the resync is dropped, the session it leaves
  is kept.\<close>

definition try_sync :: "session \<Rightarrow> string \<Rightarrow> int \<Rightarrow> session" where
  "try_sync s seller_name blanket_id =
     snd (sync_product_quantity_with_inventory s seller_name blanket_id)"

section \<open>Distributor service (app/services/distributor_service.py)\<close>

record SellerOrderResult =
  distributor_remaining_stock :: int
  res_seller_inventory :: int
  so_processed_quantity :: int
  seller_order_id :: int

definition update_distributor_stock ::
  "session \<Rightarrow> DistributorStockCreate \<Rightarrow> User \<Rightarrow> int \<times> session" where
  "update_distributor_stock s data user =
     (let db = pending s;
          db' = db\<lparr>distributor_stock :=
                  (distributor_stock db)((username user, dsc_blanket_id data) \<mapsto> dsc_quantity data)\<rparr>
      in (dsc_quantity data, commit (s\<lparr>pending := db'\<rparr>)))"

definition process_seller_order ::
  "session \<Rightarrow> int \<Rightarrow> int \<Rightarrow> string \<Rightarrow> string \<Rightarrow> (error + SellerOrderResult) \<times> session" where
  "process_seller_order s blanket_id quantity distributor_name seller_name =
     (let db = pending s in
      case find (\<lambda>u. username u = seller_name) (users db) of
        None \<Rightarrow> (Inl (SellerNotFound seller_name), s)
      | Some seller_user \<Rightarrow>
      (case find (\<lambda>u. username u = distributor_name) (users db) of
        None \<Rightarrow> (Inl (DistributorNotFound distributor_name), s)
      | Some distributor_user \<Rightarrow>
      (case distributor_stock db (distributor_name, blanket_id) of
        None \<Rightarrow> (Inl (NoDistributorStock distributor_name blanket_id), s)
      | Some available_quantity \<Rightarrow>
          if available_quantity < quantity
          then (Inl (InsufficientDistributorStock available_quantity quantity), s)
          else
            let dq = available_quantity - quantity;
                db1 = db\<lparr>distributor_stock :=
                        (distributor_stock db)((distributor_name, blanket_id) \<mapsto> dq)\<rparr>;
                sq = (case seller_inventory db1 (seller_name, blanket_id) of
                        Some q0 \<Rightarrow> q0 + quantity
                      | None \<Rightarrow> quantity);
                db2 = db1\<lparr>seller_inventory :=
                        (seller_inventory db1)((seller_name, blanket_id) \<mapsto> sq)\<rparr>;
                seller_order = \<lparr>so_seller_id = user_id seller_user,
                                so_distributor_id = user_id distributor_user,
                                so_blanket_id = blanket_id,
                                so_quantity = quantity\<rparr>;
                db3 = db2\<lparr>seller_orders := seller_orders db2 @ [seller_order]\<rparr>;
                s1 = commit (s\<lparr>pending := db3\<rparr>);
                s2 = try_sync s1 seller_name blanket_id
            in (Inr \<lparr>distributor_remaining_stock = dq,
                     res_seller_inventory = sq,
                     so_processed_quantity = quantity,
                     seller_order_id = int (length (seller_orders db3))\<rparr>, s2))))"

definition check_distributor_stock_availability ::
  "session \<Rightarrow> string \<Rightarrow> int \<Rightarrow> int \<Rightarrow> StockAvailability \<times> session" where
  "check_distributor_stock_availability s distributor_name blanket_id required_quantity =
     (case distributor_stock (pending s) (distributor_name, blanket_id) of
        None \<Rightarrow> (\<lparr>available = False, current_stock = 0\<rparr>, s)
      | Some q \<Rightarrow>
          if q \<ge> required_quantity
          then (\<lparr>available = True, current_stock = q\<rparr>, s)
          else (\<lparr>available = False, current_stock = q\<rparr>, s))"

section \<open>Seller service (app/services/seller_service.py)\<close>

record CustomerOrderResult =
  seller_remaining_inventory :: int
  customer_order :: CustomerOrder
  co_processed_quantity :: int

definition request_stock_from_distributor ::
  "session \<Rightarrow> StockRequest \<Rightarrow> int \<times> session" where
  "request_stock_from_distributor s data =
     (let db = pending s;
          key = (sr_seller_name data, sr_blanket_id data);
          q = (case seller_inventory db key of
                 Some q0 \<Rightarrow> q0 + sr_quantity data
               | None \<Rightarrow> sr_quantity data);
          db' = db\<lparr>seller_inventory := (seller_inventory db)(key \<mapsto> q)\<rparr>;
          s1 = commit (s\<lparr>pending := db'\<rparr>);
          s2 = try_sync s1 (sr_seller_name data) (sr_blanket_id data)
      in (q, s2))"

definition process_customer_order ::
  "session \<Rightarrow> int \<Rightarrow> int \<Rightarrow> string \<Rightarrow> string \<Rightarrow> User option \<Rightarrow> pyfloat option
     \<Rightarrow> (error + CustomerOrderResult) \<times> session" where
  "process_customer_order s blanket_id quantity seller_name customer_name current_user
       provided_total_value =
     (let db = pending s in
      case seller_inventory db (seller_name, blanket_id) of
        None \<Rightarrow> (Inl (NoSellerInventory seller_name blanket_id), s)
      | Some available_quantity \<Rightarrow>
          if available_quantity < quantity
          then (Inl (InsufficientSellerInventory available_quantity quantity), s)
          else
            let sq = available_quantity - quantity;
                db1 = db\<lparr>seller_inventory :=
                        (seller_inventory db)((seller_name, blanket_id) \<mapsto> sq)\<rparr>;
                status = (if (case current_user of
                                Some u \<Rightarrow> role u = ''seller'' | None \<Rightarrow> False)
                          then ''completed'' else ''pending'');
                product = (case find (\<lambda>u. username u = seller_name) (users db1) of
                             None \<Rightarrow> None
                           | Some seller \<Rightarrow>
                               find (\<lambda>p. pfs_seller_id p = user_id seller
                                          \<and> pfs_blanket_id p = blanket_id)
                                    (products_for_sale db1));
                multiplication =
                  (case product of
                     Some p \<Rightarrow>
                       (case float_mul_int (price p) quantity of
                          Some v \<Rightarrow> Inr (Some v)
                        | None \<Rightarrow> Inl IntTooLargeForFloat)
                   | None \<Rightarrow> Inr None)
            in (case multiplication of
                 Inl e \<Rightarrow> (Inl e, s\<lparr>pending := db1\<rparr>)
               | Inr calculated_total_value \<Rightarrow>
                  (let validation =
                     (case (provided_total_value, calculated_total_value) of
                        (Some provided, Some calculated) \<Rightarrow>
                          if float_gt (float_abs (float_sub provided calculated)) tolerance
                          then Some (TotalValueMismatch calculated provided) else None
                      | _ \<Rightarrow> None)
                   in (case validation of
                        Some e \<Rightarrow> (Inl e, s\<lparr>pending := db1\<rparr>)
                      | None \<Rightarrow>
                          let order = \<lparr>co_customer_name = customer_name,
                                       co_seller_name = seller_name,
                                       co_blanket_id = blanket_id,
                                       co_quantity = quantity,
                                       co_status = status,
                                       co_total_value = calculated_total_value\<rparr>;
                              db2 = db1\<lparr>customer_orders := customer_orders db1 @ [order]\<rparr>;
                              s1 = commit (s\<lparr>pending := db2\<rparr>);
                              s2 = try_sync s1 seller_name blanket_id
                          in (Inr \<lparr>seller_remaining_inventory = sq,
                                   customer_order = order,
                                   co_processed_quantity = quantity\<rparr>, s2)))))"

definition check_seller_inventory_availability ::
  "session \<Rightarrow> string \<Rightarrow> int \<Rightarrow> int \<Rightarrow> StockAvailability \<times> session" where
  "check_seller_inventory_availability s seller_name blanket_id required_quantity =
     (case seller_inventory (pending s) (seller_name, blanket_id) of
        None \<Rightarrow> (\<lparr>available = False, current_stock = 0\<rparr>, s)
      | Some q \<Rightarrow>
          if q \<ge> required_quantity
          then (\<lparr>available = True, current_stock = q\<rparr>, s)
          else (\<lparr>available = False, current_stock = q\<rparr>, s))"

section \<open>Seller controller (app/controllers/seller_controller.py)\<close>

text \<open>\<^verbatim>\<open>customer_purchase\<close>: the three listing checks raise \<^verbatim>\<open>HTTPException(400)\<close>
  themselves; a \<^verbatim>\<open>ValueError\<close> of \<^verbatim>\<open>process_customer_order\<close> is re-raised as a 400 and
  any other exception as a 500, each with the message of the exception. The message
  text of the response is left out.\<close>

definition customer_purchase ::
  "session \<Rightarrow> CustomerPurchase \<Rightarrow> User \<Rightarrow> (error + StockOperationResponse) \<times> session" where
  "customer_purchase s data user =
     (case get_product_for_sale_by_seller_and_blanket s (cp_seller_name data) (cp_blanket_id data) of
        None \<Rightarrow> (Inl (NotAvailableForSale (cp_blanket_id data) (cp_seller_name data)), s)
      | Some product_for_sale \<Rightarrow>
          if availability product_for_sale = OUT_OF_STOCK
          then (Inl ProductOutOfStock, s)
          else if pfs_quantity product_for_sale < cp_quantity data
          then (Inl (InsufficientQuantityAvailable (pfs_quantity product_for_sale)
                       (cp_quantity data)), s)
          else
            (case process_customer_order s (cp_blanket_id data) (cp_quantity data)
                    (cp_seller_name data) (cp_customer_name data) (Some user)
                    (cp_total_value data) of
               (Inl e, s') \<Rightarrow> (Inl e, s')
             | (Inr result, s') \<Rightarrow>
                 (Inr \<lparr>success = True,
                       remaining_stock = seller_remaining_inventory result,
                       processed_quantity = co_processed_quantity result,
                       total_value = co_total_value (customer_order result)\<rparr>, s')))"

section \<open>Sequences of engine operations\<close>

text \<open>The operations of the services that write a stock quantity, each run as one
  request: in a session of its own, opened and closed by \<^verbatim>\<open>get_db\<close>.\<close>

datatype engine_op =
    ProcessDistributorOrder int int string User
  | ProcessSellerOrder int int string string
  | ProcessCustomerOrder int int string string "User option" "pyfloat option"
  | CustomerPurchaseRequest CustomerPurchase User
  | UpdateBlanketStock int int
  | UpdateDistributorStock DistributorStockCreate User
  | RequestStockFromDistributor StockRequest

fun run_op :: "engine_op \<Rightarrow> database \<Rightarrow> database" where
  "run_op (ProcessDistributorOrder blanket_id quantity distributor_name user) db =
     snd (get_db (\<lambda>s. process_distributor_order s blanket_id quantity distributor_name user) db)"
| "run_op (ProcessSellerOrder blanket_id quantity distributor_name seller_name) db =
     snd (get_db (\<lambda>s. process_seller_order s blanket_id quantity distributor_name seller_name) db)"
| "run_op (ProcessCustomerOrder blanket_id quantity seller_name customer_name current_user
       provided_total_value) db =
     snd (get_db (\<lambda>s. process_customer_order s blanket_id quantity seller_name customer_name
                        current_user provided_total_value) db)"
| "run_op (CustomerPurchaseRequest data user) db =
     snd (get_db (\<lambda>s. customer_purchase s data user) db)"
| "run_op (UpdateBlanketStock blanket_id quantity) db =
     snd (get_db (\<lambda>s. update_blanket_stock s blanket_id quantity) db)"
| "run_op (UpdateDistributorStock data user) db =
     snd (get_db (\<lambda>s. update_distributor_stock s data user) db)"
| "run_op (RequestStockFromDistributor data) db =
     snd (get_db (\<lambda>s. request_stock_from_distributor s data) db)"

definition run_ops :: "engine_op list \<Rightarrow> database \<Rightarrow> database" where
  "run_ops ops db = fold run_op ops db"

text \<open>The quantity an operation is asked to move or to store.\<close>

fun requested_quantity :: "engine_op \<Rightarrow> int" where
  "requested_quantity (ProcessDistributorOrder blanket_id quantity distributor_name user) = quantity"
| "requested_quantity (ProcessSellerOrder blanket_id quantity distributor_name seller_name) = quantity"
| "requested_quantity (ProcessCustomerOrder blanket_id quantity seller_name customer_name
       current_user provided_total_value) = quantity"
| "requested_quantity (CustomerPurchaseRequest data user) = cp_quantity data"
| "requested_quantity (UpdateBlanketStock blanket_id quantity) = quantity"
| "requested_quantity (UpdateDistributorStock data user) = dsc_quantity data"
| "requested_quantity (RequestStockFromDistributor data) = sr_quantity data"

text \<open>No stock record of any tier holds a negative quantity.\<close>

definition non_negative :: "database \<Rightarrow> bool" where
  "non_negative db \<longleftrightarrow>
     (\<forall>blanket_id blanket. blankets db blanket_id = Some blanket \<longrightarrow> 0 \<le> stock blanket)
   \<and> (\<forall>key q. distributor_stock db key = Some q \<longrightarrow> 0 \<le> q)
   \<and> (\<forall>key q. seller_inventory db key = Some q \<longrightarrow> 0 \<le> q)"

section \<open>Concrete states\<close>

text \<open>The start of the scenario of the specification: distributor D1 and seller S1 are
  registered, a customer account C1 as well, the manufacturer holds 100 units of
  blanket 1, nobody else holds anything.\<close>

definition D1 :: User where
  "D1 = \<lparr>user_id = 1, username = ''D1'', role = ''distributor''\<rparr>"

definition S1 :: User where
  "S1 = \<lparr>user_id = 2, username = ''S1'', role = ''seller''\<rparr>"

definition C1 :: User where
  "C1 = \<lparr>user_id = 3, username = ''C1'', role = ''customer''\<rparr>"

definition scenario_db :: database where
  "scenario_db =
     \<lparr>users = [D1, S1, C1],
      blankets = [1 \<mapsto> \<lparr>stock = 100, production_capacity = 0\<rparr>],
      distributor_stock = Map.empty,
      seller_inventory = Map.empty,
      products_for_sale = [],
      distributor_orders = [],
      seller_orders = [],
      customer_orders = []\<rparr>"

text \<open>S1 holds 20 units of blanket 1 and has published them at price 5.\<close>

definition published_db :: database where
  "published_db =
     \<lparr>users = [D1, S1, C1],
      blankets = [1 \<mapsto> \<lparr>stock = 70, production_capacity = 0\<rparr>],
      distributor_stock = [(''D1'', 1) \<mapsto> 10],
      seller_inventory = [(''S1'', 1) \<mapsto> 20],
      products_for_sale =
        [\<lparr>pfs_id = 1, pfs_seller_id = 2, pfs_blanket_id = 1, price = Finite 5,
          pfs_quantity = 20, availability = IN_STOCK\<rparr>],
      distributor_orders = [],
      seller_orders = [],
      customer_orders = []\<rparr>"

text \<open>S1 has sold everything: inventory and listing are at 0 and the listing is out
  of stock.\<close>

definition sold_out_db :: database where
  "sold_out_db =
     \<lparr>users = [D1, S1, C1],
      blankets = [1 \<mapsto> \<lparr>stock = 70, production_capacity = 0\<rparr>],
      distributor_stock = [(''D1'', 1) \<mapsto> 10],
      seller_inventory = [(''S1'', 1) \<mapsto> 0],
      products_for_sale =
        [\<lparr>pfs_id = 1, pfs_seller_id = 2, pfs_blanket_id = 1, price = Finite 5,
          pfs_quantity = 0, availability = OUT_OF_STOCK\<rparr>],
      distributor_orders = [],
      seller_orders = [],
      customer_orders = []\<rparr>"


text \<open>The states that the scenario of the specification goes through, one request
  after the other: 30 units to D1, 20 of them on to S1, S1 publishes at price 5, and
  customer C1 buys 20 without stating a total.\<close>

definition after_first_transfer :: database where
  "after_first_transfer =
     snd (get_db (\<lambda>s. process_distributor_order s 1 30 ''D1'' D1) scenario_db)"

definition after_second_transfer :: database where
  "after_second_transfer =
     snd (get_db (\<lambda>s. process_seller_order s 1 20 ''D1'' ''S1'') after_first_transfer)"

definition after_publish :: database where
  "after_publish =
     snd (get_db (\<lambda>s. create_product_for_sale s ''S1''
                        \<lparr>pc_blanket_id = 1, pc_price = Finite 5, pc_availability = None\<rparr>)
            after_second_transfer)"

definition after_purchase :: database where
  "after_purchase =
     snd (get_db (\<lambda>s. customer_purchase s
                        \<lparr>cp_customer_name = ''C1'', cp_seller_name = ''S1'', cp_blanket_id = 1,
                         cp_quantity = 20, cp_total_value = None\<rparr> C1)
            after_publish)"

section \<open>Auxiliary facts\<close>

lemma find_update_first:
  "P y \<Longrightarrow> find P (update_first P y xs) = (case find P xs of None \<Rightarrow> None | Some x \<Rightarrow> Some y)"
  by (induction xs) auto

text \<open>A resync writes the listing table and nothing else, and it leaves a session
  without uncommitted changes in that condition.\<close>

lemma try_sync_pending:
  "\<exists>ps. pending (try_sync s n b) = (pending s)\<lparr>products_for_sale := ps\<rparr>"
  by (auto simp: try_sync_def sync_product_quantity_with_inventory_def commit_def Let_def
      split: option.splits intro: exI[of _ "products_for_sale (pending s)"])

lemma try_sync_committed:
  "committed s = pending s \<Longrightarrow> committed (try_sync s n b) = pending (try_sync s n b)"
  by (auto simp: try_sync_def sync_product_quantity_with_inventory_def commit_def Let_def
      split: option.splits)

section \<open>Float arithmetic on concrete values\<close>

text \<open>The products and comparisons that the concrete states below need, and the
  behaviour at the edge of the tolerance: with price 9.99 and quantity 3 the product
  is the double 29.97, and a provided total of 29.98 is further from it than the double
  0.01; a provided total of 0.01 against a computed total of 0 is not.\<close>

lemma float_mul_int_5_20: "float_mul_int (Finite 5) 20 = Some (Finite 100)"
  by code_simp

lemma float_mul_int_5_2: "float_mul_int (Finite 5) 2 = Some (Finite 10)"
  by code_simp

lemma float_gt_11_10: "float_gt (float_abs (float_sub (Finite 11) (Finite 10))) tolerance"
  by code_simp

lemma float_gt_10_10: "\<not> float_gt (float_abs (float_sub (Finite 10) (Finite 10))) tolerance"
  by code_simp

lemma tolerance_value: "tolerance = Finite (5764607523034235 / 576460752303423488)"
  by code_simp

lemma float_mul_int_rounds:
  "float_mul_int (round_double (999 / 100)) 3 = Some (round_double (2997 / 100))"
  by code_simp

lemma float_of_int_rounds: "float_of_int (2 ^ 60 + 1) = Some (Finite (2 ^ 60))"
  by code_simp

lemma float_mul_int_negative_zero: "float_mul_int (Finite 0) (- 3) = Some NegZero"
  by code_simp

lemma float_gt_at_the_edge:
  "float_gt (float_abs (float_sub (round_double (2998 / 100)) (round_double (2997 / 100))))
     tolerance"
  "\<not> float_gt (float_abs (float_sub (round_double (1 / 100)) (Finite 0))) tolerance"
  by code_simp+

section \<open>Conservation of stock across a transfer\<close>

text \<open>
  Claim C1. Whenever \<^verbatim>\<open>process_distributor_order\<close> (manufacturer to distributor) or
  \<^verbatim>\<open>process_seller_order\<close> (distributor to seller) succeeds for a quantity \<open>q\<close>, the
  source's stock in the committed database is its value before the call minus \<open>q\<close>, the
  destination's stock is its value before plus \<open>q\<close> (a missing destination record counts
  as 0 and is created at \<open>q\<close>), the two balances add up to what they added up to before,
  the returned balances are the committed ones, and nothing is left uncommitted.
\<close>

theorem transfer_conservation:
  "(process_distributor_order s blanket_id q distributor_name user = (Inr r, s') \<longrightarrow>
      (\<exists>blanket blanket' src_before dst_before src_after dst_after.
          blankets (pending s) blanket_id = Some blanket
        \<and> src_before = stock blanket
        \<and> dst_before = (case distributor_stock (pending s) (distributor_name, blanket_id) of
                           None \<Rightarrow> 0 | Some q0 \<Rightarrow> q0)
        \<and> blankets (committed s') blanket_id = Some blanket'
        \<and> src_after = stock blanket'
        \<and> distributor_stock (committed s') (distributor_name, blanket_id) = Some dst_after
        \<and> src_after = src_before - q
        \<and> dst_after = dst_before + q
        \<and> src_after + dst_after = src_before + dst_before
        \<and> manufacturer_remaining_stock r = src_after
        \<and> res_distributor_stock r = dst_after
        \<and> pending s' = committed s'))
   \<and> (process_seller_order s blanket_id q distributor_name seller_name = (Inr r2, s2) \<longrightarrow>
      (\<exists>src_before dst_before src_after dst_after.
          distributor_stock (pending s) (distributor_name, blanket_id) = Some src_before
        \<and> dst_before = (case seller_inventory (pending s) (seller_name, blanket_id) of
                           None \<Rightarrow> 0 | Some q0 \<Rightarrow> q0)
        \<and> distributor_stock (committed s2) (distributor_name, blanket_id) = Some src_after
        \<and> seller_inventory (committed s2) (seller_name, blanket_id) = Some dst_after
        \<and> src_after = src_before - q
        \<and> dst_after = dst_before + q
        \<and> src_after + dst_after = src_before + dst_before
        \<and> distributor_remaining_stock r2 = src_after
        \<and> res_seller_inventory r2 = dst_after
        \<and> pending s2 = committed s2))"
proof (intro conjI impI)
  assume "process_distributor_order s blanket_id q distributor_name user = (Inr r, s')"
  then show "\<exists>blanket blanket' src_before dst_before src_after dst_after.
          blankets (pending s) blanket_id = Some blanket
        \<and> src_before = stock blanket
        \<and> dst_before = (case distributor_stock (pending s) (distributor_name, blanket_id) of
                           None \<Rightarrow> 0 | Some q0 \<Rightarrow> q0)
        \<and> blankets (committed s') blanket_id = Some blanket'
        \<and> src_after = stock blanket'
        \<and> distributor_stock (committed s') (distributor_name, blanket_id) = Some dst_after
        \<and> src_after = src_before - q
        \<and> dst_after = dst_before + q
        \<and> src_after + dst_after = src_before + dst_before
        \<and> manufacturer_remaining_stock r = src_after
        \<and> res_distributor_stock r = dst_after
        \<and> pending s' = committed s'"
    by (auto simp: process_distributor_order_def commit_def Let_def
        split: option.splits if_splits)
next
  assume a: "process_seller_order s blanket_id q distributor_name seller_name = (Inr r2, s2)"
  then obtain dq s1 where
      dq: "distributor_stock (pending s) (distributor_name, blanket_id) = Some dq"
    and s1: "s1 = commit (s\<lparr>pending := (pending s)\<lparr>
                distributor_stock :=
                  (distributor_stock (pending s))((distributor_name, blanket_id) \<mapsto> dq - q),
                seller_inventory :=
                  (seller_inventory (pending s))((seller_name, blanket_id) \<mapsto>
                     (case seller_inventory (pending s) (seller_name, blanket_id) of
                        Some q0 \<Rightarrow> q0 + q | None \<Rightarrow> q)),
                seller_orders := seller_orders (pending s) @
                   [\<lparr>so_seller_id =
                       user_id (the (find (\<lambda>u. username u = seller_name) (users (pending s)))),
                     so_distributor_id =
                       user_id (the (find (\<lambda>u. username u = distributor_name) (users (pending s)))),
                     so_blanket_id = blanket_id, so_quantity = q\<rparr>]\<rparr>\<rparr>)"
    and s2: "s2 = try_sync s1 seller_name blanket_id"
    and r2: "distributor_remaining_stock r2 = dq - q"
            "res_seller_inventory r2 =
               (case seller_inventory (pending s) (seller_name, blanket_id) of
                  Some q0 \<Rightarrow> q0 + q | None \<Rightarrow> q)"
    by (auto simp: process_seller_order_def Let_def split: option.splits if_splits)
  have c: "committed s2 = pending s2"
    unfolding s2 by (rule try_sync_committed) (simp add: s1 commit_def)
  obtain ps where ps: "pending s2 = (pending s1)\<lparr>products_for_sale := ps\<rparr>"
    unfolding s2 using try_sync_pending by blast
  show "\<exists>src_before dst_before src_after dst_after.
          distributor_stock (pending s) (distributor_name, blanket_id) = Some src_before
        \<and> dst_before = (case seller_inventory (pending s) (seller_name, blanket_id) of
                           None \<Rightarrow> 0 | Some q0 \<Rightarrow> q0)
        \<and> distributor_stock (committed s2) (distributor_name, blanket_id) = Some src_after
        \<and> seller_inventory (committed s2) (seller_name, blanket_id) = Some dst_after
        \<and> src_after = src_before - q
        \<and> dst_after = dst_before + q
        \<and> src_after + dst_after = src_before + dst_before
        \<and> distributor_remaining_stock r2 = src_after
        \<and> res_seller_inventory r2 = dst_after
        \<and> pending s2 = committed s2"
    using dq r2 by (simp add: c ps s1 commit_def split: option.splits)
qed

theorem transfer_conservation_witness:
  "fst (process_distributor_order (SessionLocal scenario_db) 1 30 ''D1'' D1)
     = Inr \<lparr>manufacturer_remaining_stock = 70, res_distributor_stock = 30,
            do_processed_quantity = 30, order_id = 1\<rparr>
   \<and> distributor_stock
        (committed (snd (process_distributor_order (SessionLocal scenario_db) 1 30 ''D1'' D1)))
        (''D1'', 1) = Some 30
   \<and> fst (process_seller_order (SessionLocal published_db) 1 4 ''D1'' ''S1'')
     = Inr \<lparr>distributor_remaining_stock = 6, res_seller_inventory = 24,
            so_processed_quantity = 4, seller_order_id = 1\<rparr>
   \<and> seller_inventory
        (committed (snd (process_seller_order (SessionLocal published_db) 1 4 ''D1'' ''S1'')))
        (''S1'', 1) = Some 24"
proof -
  have h1: "process_distributor_order (SessionLocal scenario_db) 1 30 ''D1'' D1
     = (Inr \<lparr>manufacturer_remaining_stock = 70, res_distributor_stock = 30,
            do_processed_quantity = 30, order_id = 1\<rparr>,
        snd (process_distributor_order (SessionLocal scenario_db) 1 30 ''D1'' D1))"
    by (simp add: process_distributor_order_def scenario_db_def D1_def SessionLocal_def
        commit_def Let_def)
  have h2: "process_seller_order (SessionLocal published_db) 1 4 ''D1'' ''S1''
     = (Inr \<lparr>distributor_remaining_stock = 6, res_seller_inventory = 24,
            so_processed_quantity = 4, seller_order_id = 1\<rparr>,
        snd (process_seller_order (SessionLocal published_db) 1 4 ''D1'' ''S1''))"
    by (simp add: process_seller_order_def published_db_def D1_def S1_def C1_def
        SessionLocal_def commit_def Let_def)
  have f1: "fst (process_distributor_order (SessionLocal scenario_db) 1 30 ''D1'' D1)
     = Inr \<lparr>manufacturer_remaining_stock = 70, res_distributor_stock = 30,
            do_processed_quantity = 30, order_id = 1\<rparr>"
    by (subst h1) simp
  have f2: "fst (process_seller_order (SessionLocal published_db) 1 4 ''D1'' ''S1'')
     = Inr \<lparr>distributor_remaining_stock = 6, res_seller_inventory = 24,
            so_processed_quantity = 4, seller_order_id = 1\<rparr>"
    by (subst h2) simp
  have c1: "distributor_stock
        (committed (snd (process_distributor_order (SessionLocal scenario_db) 1 30 ''D1'' D1)))
        (''D1'', 1) = Some 30"
    using transfer_conservation[THEN conjunct1, rule_format, OF h1] by auto
  have c2: "seller_inventory
        (committed (snd (process_seller_order (SessionLocal published_db) 1 4 ''D1'' ''S1'')))
        (''S1'', 1) = Some 24"
    using transfer_conservation[THEN conjunct2, rule_format, OF h2] by auto
  from f1 f2 c1 c2 show ?thesis by blast
qed

section \<open>Non-negative stock\<close>

lemma non_negative_products [simp]:
  "non_negative (db\<lparr>products_for_sale := ps\<rparr>) = non_negative db"
  by (simp add: non_negative_def)

lemma non_negative_try_sync:
  "committed s = pending s \<Longrightarrow>
     non_negative (committed (try_sync s n b)) = non_negative (pending s)"
proof -
  assume a: "committed s = pending s"
  obtain ps where "pending (try_sync s n b) = (pending s)\<lparr>products_for_sale := ps\<rparr>"
    using try_sync_pending by blast
  with try_sync_committed[OF a, of n b] show ?thesis by simp
qed

lemma non_negative_process_distributor_order:
  "non_negative db \<Longrightarrow> 0 \<le> q \<Longrightarrow>
     non_negative (committed (snd (process_distributor_order (SessionLocal db) b q d u)))"
  by (auto simp: process_distributor_order_def SessionLocal_def commit_def Let_def
      non_negative_def split: option.splits if_splits)

lemma non_negative_process_seller_order:
  "non_negative db \<Longrightarrow> 0 \<le> q \<Longrightarrow>
     non_negative (committed (snd (process_seller_order (SessionLocal db) b q d sn)))"
  by (auto simp: process_seller_order_def SessionLocal_def Let_def non_negative_try_sync commit_def
      split: option.splits if_splits)
     (auto simp: non_negative_def split: if_splits)

lemma non_negative_process_customer_order:
  "non_negative db \<Longrightarrow> 0 \<le> q \<Longrightarrow>
     non_negative (committed (snd (process_customer_order (SessionLocal db) b q sn cn cu pv)))"
  by (auto simp: process_customer_order_def SessionLocal_def Let_def non_negative_try_sync commit_def
      split: option.splits if_splits sum.splits)
     (auto simp: non_negative_def split: if_splits)

lemma non_negative_customer_purchase:
  "non_negative db \<Longrightarrow> 0 \<le> cp_quantity data \<Longrightarrow>
     non_negative (committed (snd (customer_purchase (SessionLocal db) data u)))"
  using non_negative_process_customer_order[of db "cp_quantity data" "cp_blanket_id data"
      "cp_seller_name data" "cp_customer_name data" "Some u" "cp_total_value data"]
  by (auto simp: customer_purchase_def split: option.splits if_splits sum.splits prod.splits)
     (auto simp: SessionLocal_def)

lemma non_negative_update_blanket_stock:
  "non_negative db \<Longrightarrow> 0 \<le> q \<Longrightarrow>
     non_negative (committed (snd (update_blanket_stock (SessionLocal db) b q)))"
  by (auto simp: update_blanket_stock_def SessionLocal_def commit_def Let_def
      non_negative_def split: option.splits if_splits)

lemma non_negative_update_distributor_stock:
  "non_negative db \<Longrightarrow> 0 \<le> dsc_quantity data \<Longrightarrow>
     non_negative (committed (snd (update_distributor_stock (SessionLocal db) data u)))"
  by (auto simp: update_distributor_stock_def SessionLocal_def commit_def Let_def
      non_negative_def split: option.splits if_splits)

lemma non_negative_request_stock_from_distributor:
  "non_negative db \<Longrightarrow> 0 \<le> sr_quantity data \<Longrightarrow>
     non_negative (committed (snd (request_stock_from_distributor (SessionLocal db) data)))"
  by (auto simp: request_stock_from_distributor_def SessionLocal_def Let_def non_negative_try_sync
      commit_def split: option.splits if_splits)
     (auto simp: non_negative_def split: if_splits)

lemma get_db_snd: "snd (get_db f db) = committed (snd (f (SessionLocal db)))"
  by (simp add: get_db_def close_def split: prod.splits)

lemma non_negative_run_op:
  "non_negative db \<Longrightarrow> 0 \<le> requested_quantity opn \<Longrightarrow> non_negative (run_op opn db)"
  by (cases opn)
     (simp_all add: get_db_snd non_negative_process_distributor_order
        non_negative_process_seller_order non_negative_process_customer_order
        non_negative_customer_purchase non_negative_update_blanket_stock
        non_negative_update_distributor_stock non_negative_request_stock_from_distributor)

lemma non_negative_run_ops:
  "non_negative db \<Longrightarrow> \<forall>opn \<in> set ops. 0 \<le> requested_quantity opn \<Longrightarrow>
     non_negative (run_ops ops db)"
  unfolding run_ops_def
  by (induction ops arbitrary: db) (simp_all add: non_negative_run_op)


text \<open>
  No service validates the sign of a quantity (the request schemas type it as a plain
  \<^verbatim>\<open>int\<close>): \<^verbatim>\<open>update_distributor_stock\<close> stores a negative quantity as it is, and a
  transfer of a negative quantity passes the availability check and takes the
  destination below zero.
\<close>

theorem negative_quantity_counterexample:
  "non_negative scenario_db
   \<and> distributor_stock
        (run_ops [UpdateDistributorStock \<lparr>dsc_blanket_id = 1, dsc_quantity = - 1\<rparr> D1] scenario_db)
        (''D1'', 1) = Some (- 1)
   \<and> distributor_stock
        (run_ops [ProcessDistributorOrder 1 (- 5) ''D1'' D1] scenario_db) (''D1'', 1) = Some (- 5)"
  by (simp add: non_negative_def scenario_db_def D1_def run_ops_def get_db_def SessionLocal_def
      close_def commit_def update_distributor_stock_def process_distributor_order_def Let_def)

text \<open>
  Claim C2, as amended. Starting from a database without negative stock, no sequence
  of engine operations whose requested quantities are all non-negative leaves a negative
  quantity in a manufacturer, distributor or seller stock record. An attempted overdraft
  of an existing source record fails and leaves the session, and with it every balance,
  exactly as it was: with the insufficient-stock error of the tier for the manufacturer
  and the seller source, and for the distributor source as well once both user names
  have been found (an unknown name is reported first).
\<close>

theorem non_negative_and_overdraft:
  "(non_negative db \<and> (\<forall>opn \<in> set ops. 0 \<le> requested_quantity opn)
      \<longrightarrow> non_negative (run_ops ops db))
   \<and> (blankets (pending s) blanket_id = Some blanket \<and> stock blanket < q
      \<longrightarrow> process_distributor_order s blanket_id q distributor_name user
            = (Inl (InsufficientManufacturerStock (stock blanket) q), s))
   \<and> (distributor_stock (pending s) (distributor_name, blanket_id) = Some dq \<and> dq < q
      \<longrightarrow> (\<exists>e. process_seller_order s blanket_id q distributor_name seller_name = (Inl e, s)
             \<and> (find (\<lambda>u. username u = seller_name) (users (pending s)) \<noteq> None
                \<and> find (\<lambda>u. username u = distributor_name) (users (pending s)) \<noteq> None
                \<longrightarrow> e = InsufficientDistributorStock dq q)))
   \<and> (seller_inventory (pending s) (seller_name, blanket_id) = Some sq \<and> sq < q
      \<longrightarrow> process_customer_order s blanket_id q seller_name customer_name current_user
              provided_total_value
            = (Inl (InsufficientSellerInventory sq q), s))"
proof (intro conjI impI)
  assume "non_negative db \<and> (\<forall>opn \<in> set ops. 0 \<le> requested_quantity opn)"
  then show "non_negative (run_ops ops db)"
    by (simp add: non_negative_run_ops)
next
  assume "blankets (pending s) blanket_id = Some blanket \<and> stock blanket < q"
  then show "process_distributor_order s blanket_id q distributor_name user
            = (Inl (InsufficientManufacturerStock (stock blanket) q), s)"
    by (simp add: process_distributor_order_def)
next
  assume "distributor_stock (pending s) (distributor_name, blanket_id) = Some dq \<and> dq < q"
  then show "\<exists>e. process_seller_order s blanket_id q distributor_name seller_name = (Inl e, s)
             \<and> (find (\<lambda>u. username u = seller_name) (users (pending s)) \<noteq> None
                \<and> find (\<lambda>u. username u = distributor_name) (users (pending s)) \<noteq> None
                \<longrightarrow> e = InsufficientDistributorStock dq q)"
    by (cases "find (\<lambda>u. username u = seller_name) (users (pending s))";
        cases "find (\<lambda>u. username u = distributor_name) (users (pending s))")
       (simp_all add: process_seller_order_def)
next
  assume "seller_inventory (pending s) (seller_name, blanket_id) = Some sq \<and> sq < q"
  then show "process_customer_order s blanket_id q seller_name customer_name current_user
              provided_total_value
            = (Inl (InsufficientSellerInventory sq q), s)"
    by (simp add: process_customer_order_def)
qed

theorem non_negative_and_overdraft_witness:
  "non_negative scenario_db
   \<and> non_negative (run_ops [ProcessDistributorOrder 1 30 ''D1'' D1,
                            ProcessSellerOrder 1 20 ''D1'' ''S1''] scenario_db)
   \<and> process_distributor_order (SessionLocal scenario_db) 1 150 ''D1'' D1
        = (Inl (InsufficientManufacturerStock 100 150), SessionLocal scenario_db)
   \<and> process_seller_order (SessionLocal published_db) 1 50 ''D1'' ''S1''
        = (Inl (InsufficientDistributorStock 10 50), SessionLocal published_db)
   \<and> process_customer_order (SessionLocal published_db) 1 25 ''S1'' ''C1'' None None
        = (Inl (InsufficientSellerInventory 20 25), SessionLocal published_db)"
proof -
  have n: "non_negative scenario_db"
    by (simp add: non_negative_def scenario_db_def)
  have q: "\<forall>opn \<in> set [ProcessDistributorOrder 1 30 ''D1'' D1,
                          ProcessSellerOrder 1 20 ''D1'' ''S1'']. 0 \<le> requested_quantity opn"
    by simp
  have b1: "blankets (pending (SessionLocal scenario_db)) 1
              = Some \<lparr>stock = 100, production_capacity = 0\<rparr>
            \<and> stock \<lparr>stock = 100, production_capacity = 0\<rparr> < 150"
    by (simp add: scenario_db_def SessionLocal_def)
  have b2: "distributor_stock (pending (SessionLocal published_db)) (''D1'', 1) = Some 10
            \<and> (10::int) < 50"
    by (simp add: published_db_def SessionLocal_def)
  have u2: "find (\<lambda>u. username u = ''S1'') (users (pending (SessionLocal published_db))) \<noteq> None
          \<and> find (\<lambda>u. username u = ''D1'') (users (pending (SessionLocal published_db))) \<noteq> None"
    by (simp add: published_db_def SessionLocal_def D1_def S1_def C1_def)
  have b3: "seller_inventory (pending (SessionLocal published_db)) (''S1'', 1) = Some 20
            \<and> (20::int) < 25"
    by (simp add: published_db_def SessionLocal_def)
  note t = non_negative_and_overdraft
  have c1: "non_negative (run_ops [ProcessDistributorOrder 1 30 ''D1'' D1,
                            ProcessSellerOrder 1 20 ''D1'' ''S1''] scenario_db)"
    using t[THEN conjunct1] n q by blast
  have c2: "process_distributor_order (SessionLocal scenario_db) 1 150 ''D1'' D1
        = (Inl (InsufficientManufacturerStock 100 150), SessionLocal scenario_db)"
    using t[THEN conjunct2, THEN conjunct1, rule_format, OF b1] by simp
  have c3: "process_seller_order (SessionLocal published_db) 1 50 ''D1'' ''S1''
        = (Inl (InsufficientDistributorStock 10 50), SessionLocal published_db)"
    using t[THEN conjunct2, THEN conjunct2, THEN conjunct1, rule_format, OF b2, of "''S1''"] u2
    by auto
  have c4: "process_customer_order (SessionLocal published_db) 1 25 ''S1'' ''C1'' None None
        = (Inl (InsufficientSellerInventory 20 25), SessionLocal published_db)"
    using t[THEN conjunct2, THEN conjunct2, THEN conjunct2, rule_format, OF b3] by simp
  from n c1 c2 c3 c4 show ?thesis by blast
qed

section \<open>Validation of the total value of a customer order\<close>

text \<open>
  \<^verbatim>\<open>process_customer_order\<close> decrements the quantity attribute of the inventory row it
  has loaded before it compares the totals, and raises without a commit when they
  differ: the decrement stays in the session that raised, uncommitted, and is dropped
  when \<^verbatim>\<open>get_db\<close> closes the session. The database is never written.
\<close>

lemma try_sync_committed_orders:
  assumes "committed s = pending s"
  shows "customer_orders (committed (try_sync s n b)) = customer_orders (pending s)"
proof -
  obtain ps where "pending (try_sync s n b) = (pending s)\<lparr>products_for_sale := ps\<rparr>"
    using try_sync_pending by blast
  with try_sync_committed[OF assms, of n b] show ?thesis by simp
qed

lemma total_mismatch_leaves_decrement_pending:
  "seller_inventory (pending s) (seller_name, blanket_id) = Some sq \<Longrightarrow> q \<le> sq \<Longrightarrow>
   find (\<lambda>u. username u = seller_name) (users (pending s)) = Some seller \<Longrightarrow>
   find (\<lambda>p. pfs_seller_id p = user_id seller \<and> pfs_blanket_id p = blanket_id)
        (products_for_sale (pending s)) = Some listing \<Longrightarrow>
   float_mul_int (price listing) q = Some computed \<Longrightarrow>
   float_gt (float_abs (float_sub pv computed)) tolerance \<Longrightarrow>
   seller_inventory
     (pending (snd (process_customer_order s blanket_id q seller_name customer_name
                      current_user (Some pv))))
     (seller_name, blanket_id) = Some (sq - q)"
  by (simp add: process_customer_order_def Let_def)

text \<open>
  Claim C3. In the seller-to-customer transfer, once the inventory check has passed and
  a listing is found, the computed total is the listing price times the requested
  quantity, the product that \<^verbatim>\<open>price * quantity\<close> yields in double precision: it is the
  total stored in the order that a successful call appends. When the caller provides a
  total that differs from it by more than 0.01, as the code measures it
  (\<^verbatim>\<open>abs(provided - computed) > 0.01\<close> on doubles), the call fails with the total-mismatch
  error and the committed database is what it was; for the request as a whole
  (\<^verbatim>\<open>customer_purchase\<close> in the session that \<^verbatim>\<open>get_db\<close> opens and closes) the database
  after the failure equals the database before it, seller inventory included.
\<close>

theorem total_value_validation:
  "(seller_inventory (pending s) (seller_name, blanket_id) = Some sq \<and> q \<le> sq
    \<and> find (\<lambda>u. username u = seller_name) (users (pending s)) = Some seller
    \<and> find (\<lambda>p. pfs_seller_id p = user_id seller \<and> pfs_blanket_id p = blanket_id)
           (products_for_sale (pending s)) = Some listing
    \<and> float_mul_int (price listing) q = Some computed
    \<and> provided_total_value = Some pv
    \<and> float_gt (float_abs (float_sub pv computed)) tolerance
    \<longrightarrow> fst (process_customer_order s blanket_id q seller_name customer_name current_user
               provided_total_value)
          = Inl (TotalValueMismatch computed pv)
      \<and> committed (snd (process_customer_order s blanket_id q seller_name customer_name
               current_user provided_total_value)) = committed s)
   \<and> (seller_inventory (pending s) (seller_name, blanket_id) = Some sq \<and> q \<le> sq
    \<and> find (\<lambda>u. username u = seller_name) (users (pending s)) = Some seller
    \<and> find (\<lambda>p. pfs_seller_id p = user_id seller \<and> pfs_blanket_id p = blanket_id)
           (products_for_sale (pending s)) = Some listing
    \<and> float_mul_int (price listing) q = Some computed
    \<and> (provided_total_value = None
        \<or> (\<exists>pv'. provided_total_value = Some pv'
              \<and> \<not> float_gt (float_abs (float_sub pv' computed)) tolerance))
    \<longrightarrow> (\<exists>r. fst (process_customer_order s blanket_id q seller_name customer_name
                   current_user provided_total_value) = Inr r
          \<and> co_total_value (customer_order r) = Some computed
          \<and> customer_orders (committed (snd (process_customer_order s blanket_id q
                   seller_name customer_name current_user provided_total_value)))
              = customer_orders (pending s) @ [customer_order r]))
   \<and> (seller_inventory db (cp_seller_name data, cp_blanket_id data) = Some sq
    \<and> cp_quantity data \<le> sq
    \<and> find (\<lambda>u. username u = cp_seller_name data) (users db) = Some seller
    \<and> find (\<lambda>p. pfs_seller_id p = user_id seller \<and> pfs_blanket_id p = cp_blanket_id data)
           (products_for_sale db) = Some listing
    \<and> availability listing = IN_STOCK \<and> cp_quantity data \<le> pfs_quantity listing
    \<and> float_mul_int (price listing) (cp_quantity data) = Some computed
    \<and> cp_total_value data = Some pv
    \<and> float_gt (float_abs (float_sub pv computed)) tolerance
    \<longrightarrow> get_db (\<lambda>s. customer_purchase s data user) db
          = (Inl (TotalValueMismatch computed pv), db))"
proof (intro conjI impI)
  assume "seller_inventory (pending s) (seller_name, blanket_id) = Some sq \<and> q \<le> sq
    \<and> find (\<lambda>u. username u = seller_name) (users (pending s)) = Some seller
    \<and> find (\<lambda>p. pfs_seller_id p = user_id seller \<and> pfs_blanket_id p = blanket_id)
           (products_for_sale (pending s)) = Some listing
    \<and> float_mul_int (price listing) q = Some computed
    \<and> provided_total_value = Some pv
    \<and> float_gt (float_abs (float_sub pv computed)) tolerance"
  then show
    "fst (process_customer_order s blanket_id q seller_name customer_name current_user
               provided_total_value)
          = Inl (TotalValueMismatch computed pv)"
    "committed (snd (process_customer_order s blanket_id q seller_name customer_name
               current_user provided_total_value)) = committed s"
    by (simp_all add: process_customer_order_def Let_def)
next
  assume a: "seller_inventory (pending s) (seller_name, blanket_id) = Some sq \<and> q \<le> sq
    \<and> find (\<lambda>u. username u = seller_name) (users (pending s)) = Some seller
    \<and> find (\<lambda>p. pfs_seller_id p = user_id seller \<and> pfs_blanket_id p = blanket_id)
           (products_for_sale (pending s)) = Some listing
    \<and> float_mul_int (price listing) q = Some computed
    \<and> (provided_total_value = None
        \<or> (\<exists>pv'. provided_total_value = Some pv'
              \<and> \<not> float_gt (float_abs (float_sub pv' computed)) tolerance))"
  then show "\<exists>r. fst (process_customer_order s blanket_id q seller_name customer_name
                   current_user provided_total_value) = Inr r
          \<and> co_total_value (customer_order r) = Some computed
          \<and> customer_orders (committed (snd (process_customer_order s blanket_id q
                   seller_name customer_name current_user provided_total_value)))
              = customer_orders (pending s) @ [customer_order r]"
    by (auto simp: process_customer_order_def Let_def try_sync_committed_orders commit_def)
next
  assume a: "seller_inventory db (cp_seller_name data, cp_blanket_id data) = Some sq
    \<and> cp_quantity data \<le> sq
    \<and> find (\<lambda>u. username u = cp_seller_name data) (users db) = Some seller
    \<and> find (\<lambda>p. pfs_seller_id p = user_id seller \<and> pfs_blanket_id p = cp_blanket_id data)
           (products_for_sale db) = Some listing
    \<and> availability listing = IN_STOCK \<and> cp_quantity data \<le> pfs_quantity listing
    \<and> float_mul_int (price listing) (cp_quantity data) = Some computed
    \<and> cp_total_value data = Some pv
    \<and> float_gt (float_abs (float_sub pv computed)) tolerance"
  then show "get_db (\<lambda>s. customer_purchase s data user) db
          = (Inl (TotalValueMismatch computed pv), db)"
    by (simp add: get_db_def SessionLocal_def close_def customer_purchase_def
        get_product_for_sale_by_seller_and_blanket_def process_customer_order_def Let_def)
qed

theorem total_value_validation_witness:
  "seller_inventory published_db (''S1'', 1) = Some 20
   \<and> float_mul_int (Finite 5) 2 = Some (Finite 10)
   \<and> float_gt (float_abs (float_sub (Finite 11) (Finite 10))) tolerance
   \<and> fst (process_customer_order (SessionLocal published_db) 1 2 ''S1'' ''C1'' (Some C1)
            (Some (Finite 11)))
        = Inl (TotalValueMismatch (Finite 10) (Finite 11))
   \<and> committed (snd (process_customer_order (SessionLocal published_db) 1 2 ''S1'' ''C1''
                        (Some C1) (Some (Finite 11)))) = published_db
   \<and> (\<exists>r. fst (process_customer_order (SessionLocal published_db) 1 2 ''S1'' ''C1'' (Some C1) None)
              = Inr r
          \<and> co_total_value (customer_order r) = Some (Finite 10))
   \<and> get_db (\<lambda>s. customer_purchase s
                \<lparr>cp_customer_name = ''C1'', cp_seller_name = ''S1'', cp_blanket_id = 1,
                 cp_quantity = 2, cp_total_value = Some (Finite 11)\<rparr> C1) published_db
        = (Inl (TotalValueMismatch (Finite 10) (Finite 11)), published_db)"
proof -
  let ?listing = "\<lparr>pfs_id = 1, pfs_seller_id = 2, pfs_blanket_id = 1, price = Finite 5,
                    pfs_quantity = 20, availability = IN_STOCK\<rparr>"
  let ?data = "\<lparr>cp_customer_name = ''C1'', cp_seller_name = ''S1'', cp_blanket_id = 1,
                 cp_quantity = 2, cp_total_value = Some (Finite 11)\<rparr>"
  let ?s = "SessionLocal published_db"
  have inv: "seller_inventory published_db (''S1'', 1) = Some 20"
    by (simp add: published_db_def)
  have usr: "find (\<lambda>u. username u = ''S1'') (users published_db) = Some S1"
    by (simp add: published_db_def D1_def S1_def)
  have lst: "find (\<lambda>p. pfs_seller_id p = user_id S1 \<and> pfs_blanket_id p = 1)
               (products_for_sale published_db) = Some ?listing"
    by (simp add: published_db_def S1_def)
  have mul: "float_mul_int (price ?listing) 2 = Some (Finite 10)"
    by (simp add: float_mul_int_5_2)
  note mis = float_gt_11_10
  have pend: "pending ?s = published_db" "committed ?s = published_db"
    by (simp_all add: SessionLocal_def)
  have h1: "seller_inventory (pending ?s) (''S1'', 1) = Some 20 \<and> (2::int) \<le> 20
    \<and> find (\<lambda>u. username u = ''S1'') (users (pending ?s)) = Some S1
    \<and> find (\<lambda>p. pfs_seller_id p = user_id S1 \<and> pfs_blanket_id p = 1)
           (products_for_sale (pending ?s)) = Some ?listing
    \<and> float_mul_int (price ?listing) 2 = Some (Finite 10)
    \<and> Some (Finite 11) = Some (Finite 11)
    \<and> float_gt (float_abs (float_sub (Finite 11) (Finite 10))) tolerance"
    using inv usr lst mul mis by (simp add: pend)
  have h2: "seller_inventory (pending ?s) (''S1'', 1) = Some 20 \<and> (2::int) \<le> 20
    \<and> find (\<lambda>u. username u = ''S1'') (users (pending ?s)) = Some S1
    \<and> find (\<lambda>p. pfs_seller_id p = user_id S1 \<and> pfs_blanket_id p = 1)
           (products_for_sale (pending ?s)) = Some ?listing
    \<and> float_mul_int (price ?listing) 2 = Some (Finite 10)
    \<and> ((None :: pyfloat option) = None
        \<or> (\<exists>pv'. (None :: pyfloat option) = Some pv'
              \<and> \<not> float_gt (float_abs (float_sub pv' (Finite 10))) tolerance))"
    using inv usr lst mul by (simp add: pend)
  have h3: "seller_inventory published_db (cp_seller_name ?data, cp_blanket_id ?data) = Some 20
    \<and> cp_quantity ?data \<le> 20
    \<and> find (\<lambda>u. username u = cp_seller_name ?data) (users published_db) = Some S1
    \<and> find (\<lambda>p. pfs_seller_id p = user_id S1 \<and> pfs_blanket_id p = cp_blanket_id ?data)
           (products_for_sale published_db) = Some ?listing
    \<and> availability ?listing = IN_STOCK \<and> cp_quantity ?data \<le> pfs_quantity ?listing
    \<and> float_mul_int (price ?listing) (cp_quantity ?data) = Some (Finite 10)
    \<and> cp_total_value ?data = Some (Finite 11)
    \<and> float_gt (float_abs (float_sub (Finite 11) (Finite 10))) tolerance"
    using inv usr lst mul mis by simp
  note t = total_value_validation
  have c1: "fst (process_customer_order ?s 1 2 ''S1'' ''C1'' (Some C1) (Some (Finite 11)))
        = Inl (TotalValueMismatch (Finite 10) (Finite 11))
   \<and> committed (snd (process_customer_order ?s 1 2 ''S1'' ''C1''
                        (Some C1) (Some (Finite 11)))) = published_db"
    using t[THEN conjunct1, rule_format, OF h1] by (simp add: pend)
  have c2: "\<exists>r. fst (process_customer_order ?s 1 2 ''S1'' ''C1'' (Some C1) None) = Inr r
          \<and> co_total_value (customer_order r) = Some (Finite 10)"
    using t[THEN conjunct2, THEN conjunct1, rule_format, OF h2] by blast
  have c3: "get_db (\<lambda>s. customer_purchase s ?data C1) published_db
        = (Inl (TotalValueMismatch (Finite 10) (Finite 11)), published_db)"
    using t[THEN conjunct2, THEN conjunct2, rule_format, OF h3] by simp
  from inv float_mul_int_5_2 mis c1 c2 c3 show ?thesis by blast
qed

section \<open>Listing checks of a customer purchase\<close>

text \<open>
  Claim C4. \<^verbatim>\<open>customer_purchase\<close> checks the listing in this order before it calls the
  transfer: it fails with the not-published error when no listing exists for the seller
  and the product, with the out-of-stock error when the listing is out of stock, and
  with the insufficient-quantity error when the listing, not being out of stock, has a
  quantity less than the requested one. In each of the three cases the session, and so
  every table, is returned as it was.
\<close>

theorem customer_purchase_listing_checks:
  "(get_product_for_sale_by_seller_and_blanket s (cp_seller_name data) (cp_blanket_id data) = None
      \<longrightarrow> customer_purchase s data user
            = (Inl (NotAvailableForSale (cp_blanket_id data) (cp_seller_name data)), s))
   \<and> (get_product_for_sale_by_seller_and_blanket s (cp_seller_name data) (cp_blanket_id data)
         = Some listing
       \<and> availability listing = OUT_OF_STOCK
      \<longrightarrow> customer_purchase s data user = (Inl ProductOutOfStock, s))
   \<and> (get_product_for_sale_by_seller_and_blanket s (cp_seller_name data) (cp_blanket_id data)
         = Some listing
       \<and> availability listing \<noteq> OUT_OF_STOCK
       \<and> pfs_quantity listing < cp_quantity data
      \<longrightarrow> customer_purchase s data user
            = (Inl (InsufficientQuantityAvailable (pfs_quantity listing) (cp_quantity data)), s))"
  by (simp add: customer_purchase_def)

theorem customer_purchase_listing_checks_witness:
  "customer_purchase (SessionLocal scenario_db)
        \<lparr>cp_customer_name = ''C1'', cp_seller_name = ''S1'', cp_blanket_id = 1,
         cp_quantity = 1, cp_total_value = None\<rparr> C1
       = (Inl (NotAvailableForSale 1 ''S1''), SessionLocal scenario_db)
   \<and> customer_purchase (SessionLocal sold_out_db)
        \<lparr>cp_customer_name = ''C1'', cp_seller_name = ''S1'', cp_blanket_id = 1,
         cp_quantity = 0, cp_total_value = None\<rparr> C1
       = (Inl ProductOutOfStock, SessionLocal sold_out_db)
   \<and> customer_purchase (SessionLocal published_db)
        \<lparr>cp_customer_name = ''C1'', cp_seller_name = ''S1'', cp_blanket_id = 1,
         cp_quantity = 25, cp_total_value = None\<rparr> C1
       = (Inl (InsufficientQuantityAvailable 20 25), SessionLocal published_db)"
proof -
  let ?d1 = "\<lparr>cp_customer_name = ''C1'', cp_seller_name = ''S1'', cp_blanket_id = 1,
         cp_quantity = 1, cp_total_value = None\<rparr>"
  let ?d2 = "\<lparr>cp_customer_name = ''C1'', cp_seller_name = ''S1'', cp_blanket_id = 1,
         cp_quantity = 0, cp_total_value = None\<rparr>"
  let ?d3 = "\<lparr>cp_customer_name = ''C1'', cp_seller_name = ''S1'', cp_blanket_id = 1,
         cp_quantity = 25, cp_total_value = None\<rparr>"
  let ?sold = "\<lparr>pfs_id = 1, pfs_seller_id = 2, pfs_blanket_id = 1, price = Finite 5,
             pfs_quantity = 0, availability = OUT_OF_STOCK\<rparr>"
  let ?pub = "\<lparr>pfs_id = 1, pfs_seller_id = 2, pfs_blanket_id = 1, price = Finite 5,
             pfs_quantity = 20, availability = IN_STOCK\<rparr>"
  have h1: "get_product_for_sale_by_seller_and_blanket (SessionLocal scenario_db)
              (cp_seller_name ?d1) (cp_blanket_id ?d1) = None"
    by (simp add: get_product_for_sale_by_seller_and_blanket_def scenario_db_def
        SessionLocal_def D1_def S1_def C1_def)
  have h2: "get_product_for_sale_by_seller_and_blanket (SessionLocal sold_out_db)
              (cp_seller_name ?d2) (cp_blanket_id ?d2) = Some ?sold
            \<and> availability ?sold = OUT_OF_STOCK"
    by (simp add: get_product_for_sale_by_seller_and_blanket_def sold_out_db_def
        SessionLocal_def D1_def S1_def C1_def)
  have h3: "get_product_for_sale_by_seller_and_blanket (SessionLocal published_db)
              (cp_seller_name ?d3) (cp_blanket_id ?d3) = Some ?pub
            \<and> availability ?pub \<noteq> OUT_OF_STOCK
            \<and> pfs_quantity ?pub < cp_quantity ?d3"
    by (simp add: get_product_for_sale_by_seller_and_blanket_def published_db_def
        SessionLocal_def D1_def S1_def C1_def)
  note t = customer_purchase_listing_checks
  have c1: "customer_purchase (SessionLocal scenario_db) ?d1 C1
       = (Inl (NotAvailableForSale 1 ''S1''), SessionLocal scenario_db)"
    using t[THEN conjunct1, rule_format, OF h1] by simp
  have c2: "customer_purchase (SessionLocal sold_out_db) ?d2 C1
       = (Inl ProductOutOfStock, SessionLocal sold_out_db)"
    using t[THEN conjunct2, THEN conjunct1, rule_format, OF h2] by simp
  have c3: "customer_purchase (SessionLocal published_db) ?d3 C1
       = (Inl (InsufficientQuantityAvailable 20 25), SessionLocal published_db)"
    using t[THEN conjunct2, THEN conjunct2, rule_format, OF h3] by simp
  from c1 c2 c3 show ?thesis by blast
qed

section \<open>Resynchronising a listing with the inventory\<close>

lemma find_SomeD: "find P xs = Some x \<Longrightarrow> P x"
  by (induction xs) (auto split: if_splits)





section \<open>Publishing a product for sale\<close>

lemma find_snoc:
  "find P (xs @ [y]) = (case find P xs of None \<Rightarrow> (if P y then Some y else None) | Some x \<Rightarrow> Some x)"
  by (induction xs) auto

text \<open>
  Claim C6. For a registered seller, \<^verbatim>\<open>create_product_for_sale\<close> fails with the
  no-inventory error when the seller has no inventory record for the blanket; it fails
  whenever a listing of that seller for that blanket exists already, with the
  already-exists error once the inventory record is there (the inventory is looked up
  first); both failures return the session as it was. Otherwise it succeeds: it appends
  one listing with the price asked, with the quantity of the inventory record, and in
  stock exactly when that quantity is positive, and a lookup of the pair then returns
  that listing.
\<close>

theorem publish_listing:
  "find (\<lambda>u. username u = seller_username) (users (pending s)) = Some seller \<longrightarrow>
     (seller_inventory (pending s) (seller_username, pc_blanket_id data) = None
        \<longrightarrow> create_product_for_sale s seller_username data
              = (Inl (NoInventoryForBlanket (pc_blanket_id data)), s))
   \<and> (find (\<lambda>p. pfs_seller_id p = user_id seller \<and> pfs_blanket_id p = pc_blanket_id data)
          (products_for_sale (pending s)) \<noteq> None
        \<longrightarrow> (\<exists>e. create_product_for_sale s seller_username data = (Inl e, s)
               \<and> (seller_inventory (pending s) (seller_username, pc_blanket_id data) \<noteq> None
                    \<longrightarrow> e = ProductAlreadyExists (pc_blanket_id data))))
   \<and> (\<forall>q. seller_inventory (pending s) (seller_username, pc_blanket_id data) = Some q
          \<and> find (\<lambda>p. pfs_seller_id p = user_id seller \<and> pfs_blanket_id p = pc_blanket_id data)
               (products_for_sale (pending s)) = None
        \<longrightarrow> (\<exists>listing.
               fst (create_product_for_sale s seller_username data) = Inr listing
             \<and> pfs_quantity listing = q
             \<and> (availability listing = IN_STOCK \<longleftrightarrow> 0 < q)
             \<and> price listing = pc_price data
             \<and> products_for_sale
                  (committed (snd (create_product_for_sale s seller_username data)))
                = products_for_sale (pending s) @ [listing]
             \<and> get_product_for_sale_by_seller_and_blanket
                  (snd (create_product_for_sale s seller_username data))
                  seller_username (pc_blanket_id data) = Some listing))"
  by (auto simp: create_product_for_sale_def Let_def commit_def
      get_product_for_sale_by_seller_and_blanket_def find_snoc split: option.splits)

theorem publish_listing_witness:
  "create_product_for_sale (SessionLocal scenario_db) ''S1''
       \<lparr>pc_blanket_id = 1, pc_price = Finite 5, pc_availability = None\<rparr>
     = (Inl (NoInventoryForBlanket 1), SessionLocal scenario_db)
   \<and> create_product_for_sale (SessionLocal published_db) ''S1''
       \<lparr>pc_blanket_id = 1, pc_price = Finite 5, pc_availability = None\<rparr>
     = (Inl (ProductAlreadyExists 1), SessionLocal published_db)
   \<and> (\<exists>listing.
         fst (create_product_for_sale (SessionLocal (published_db\<lparr>products_for_sale := []\<rparr>))
                ''S1'' \<lparr>pc_blanket_id = 1, pc_price = Finite 5, pc_availability = None\<rparr>) = Inr listing
       \<and> pfs_quantity listing = 20 \<and> availability listing = IN_STOCK \<and> price listing = Finite 5)"
proof -
  let ?data = "\<lparr>pc_blanket_id = 1, pc_price = Finite 5, pc_availability = None\<rparr>"
  let ?s1 = "SessionLocal scenario_db"
  let ?s2 = "SessionLocal published_db"
  let ?s3 = "SessionLocal (published_db\<lparr>products_for_sale := []\<rparr>)"
  have u1: "find (\<lambda>u. username u = ''S1'') (users (pending ?s1)) = Some S1"
    by (simp add: scenario_db_def SessionLocal_def D1_def S1_def)
  have u2: "find (\<lambda>u. username u = ''S1'') (users (pending ?s2)) = Some S1"
    by (simp add: published_db_def SessionLocal_def D1_def S1_def)
  have u3: "find (\<lambda>u. username u = ''S1'') (users (pending ?s3)) = Some S1"
    by (simp add: published_db_def SessionLocal_def D1_def S1_def)
  have h1: "seller_inventory (pending ?s1) (''S1'', pc_blanket_id ?data) = None"
    by (simp add: scenario_db_def SessionLocal_def)
  have h2: "find (\<lambda>p. pfs_seller_id p = user_id S1 \<and> pfs_blanket_id p = pc_blanket_id ?data)
              (products_for_sale (pending ?s2)) \<noteq> None"
           "seller_inventory (pending ?s2) (''S1'', pc_blanket_id ?data) \<noteq> None"
    by (simp_all add: published_db_def SessionLocal_def S1_def)
  have h3: "seller_inventory (pending ?s3) (''S1'', pc_blanket_id ?data) = Some 20
          \<and> find (\<lambda>p. pfs_seller_id p = user_id S1 \<and> pfs_blanket_id p = pc_blanket_id ?data)
               (products_for_sale (pending ?s3)) = None"
    by (simp add: published_db_def SessionLocal_def)
  have c1: "create_product_for_sale ?s1 ''S1'' ?data = (Inl (NoInventoryForBlanket 1), ?s1)"
    using publish_listing[rule_format, OF u1, THEN conjunct1, rule_format, OF h1] by simp
  have c2: "create_product_for_sale ?s2 ''S1'' ?data = (Inl (ProductAlreadyExists 1), ?s2)"
    using publish_listing[rule_format, OF u2, THEN conjunct2, THEN conjunct1, rule_format,
        OF h2(1)] h2(2) by auto
  have c3: "\<exists>listing. fst (create_product_for_sale ?s3 ''S1'' ?data) = Inr listing
       \<and> pfs_quantity listing = 20 \<and> availability listing = IN_STOCK \<and> price listing = Finite 5"
    using publish_listing[rule_format, OF u3, THEN conjunct2, THEN conjunct2, rule_format,
        OF h3] by auto
  from c1 c2 c3 show ?thesis by blast
qed

text \<open>
  Claim C10. The availability that the caller sends in the payload has no effect on
  \<^verbatim>\<open>create_product_for_sale\<close>: with any other value in that field the call returns the
  same result and the same session, and the availability of a created listing is in
  stock exactly when the seller's inventory quantity is positive.
\<close>

theorem publish_ignores_supplied_availability:
  "create_product_for_sale s seller_username (data\<lparr>pc_availability := a\<rparr>)
     = create_product_for_sale s seller_username data
   \<and> (\<forall>listing s'. create_product_for_sale s seller_username (data\<lparr>pc_availability := a\<rparr>)
                      = (Inr listing, s')
        \<longrightarrow> (\<exists>q. seller_inventory (pending s) (seller_username, pc_blanket_id data) = Some q
                \<and> (availability listing = IN_STOCK \<longleftrightarrow> 0 < q)))"
  by (auto simp: create_product_for_sale_def Let_def split: option.splits)


theorem publish_ignores_supplied_availability_witness:
  "create_product_for_sale (SessionLocal (published_db\<lparr>products_for_sale := []\<rparr>)) ''S1''
       \<lparr>pc_blanket_id = 1, pc_price = Finite 5, pc_availability = Some OUT_OF_STOCK\<rparr>
     = create_product_for_sale (SessionLocal (published_db\<lparr>products_for_sale := []\<rparr>)) ''S1''
       \<lparr>pc_blanket_id = 1, pc_price = Finite 5, pc_availability = Some IN_STOCK\<rparr>
   \<and> map_sum id availability
       (fst (create_product_for_sale (SessionLocal (published_db\<lparr>products_for_sale := []\<rparr>))
          ''S1'' \<lparr>pc_blanket_id = 1, pc_price = Finite 5, pc_availability = Some OUT_OF_STOCK\<rparr>))
     = Inr IN_STOCK"
proof -
  let ?s = "SessionLocal (published_db\<lparr>products_for_sale := []\<rparr>)"
  let ?data = "\<lparr>pc_blanket_id = 1, pc_price = Finite 5, pc_availability = Some IN_STOCK\<rparr>"
  let ?sent = "\<lparr>pc_blanket_id = 1, pc_price = Finite 5, pc_availability = Some OUT_OF_STOCK\<rparr>"
  have e: "?data\<lparr>pc_availability := Some OUT_OF_STOCK\<rparr> = ?sent"
    by simp
  have inv: "seller_inventory (pending ?s) (''S1'', pc_blanket_id ?data) = Some 20"
    by (simp add: published_db_def SessionLocal_def)
  have r: "create_product_for_sale ?s ''S1'' ?sent
             = (Inr (projr (fst (create_product_for_sale ?s ''S1'' ?sent))),
                snd (create_product_for_sale ?s ''S1'' ?sent))"
    by (simp add: create_product_for_sale_def published_db_def SessionLocal_def
        D1_def S1_def Let_def)
  note t = publish_ignores_supplied_availability[where s = ?s and seller_username = "''S1''"
      and data = ?data and a = "Some OUT_OF_STOCK", unfolded e]
  have c1: "create_product_for_sale ?s ''S1'' ?sent = create_product_for_sale ?s ''S1'' ?data"
    using t by blast
  have c2: "availability (projr (fst (create_product_for_sale ?s ''S1'' ?sent))) = IN_STOCK"
    using t[THEN conjunct2, rule_format, OF r] inv by auto
  have c3: "map_sum id availability (fst (create_product_for_sale ?s ''S1'' ?sent)) = Inr IN_STOCK"
    by (subst r) (simp add: c2)
  from c1 c3 show ?thesis by blast
qed

section \<open>Resync after a distributor-to-seller transfer\<close>

text \<open>
  Claim C7. A distributor-to-seller transfer that passes its checks commits the stock
  movement and the order, then runs the resync on the committed session and returns its
  success result whatever the resync answered. When the seller has no listing for the
  blanket, the resync fails with the no-product error and changes nothing; the transfer
  still returns success and the committed stock is the moved stock. When a listing
  exists, it carries the seller's new inventory quantity by the time the call returns.
\<close>

theorem resync_failure_swallowed:
  "find (\<lambda>u. username u = seller_name) (users (pending s)) = Some seller_user
   \<and> find (\<lambda>u. username u = distributor_name) (users (pending s)) = Some distributor_user
   \<and> distributor_stock (pending s) (distributor_name, blanket_id) = Some dq
   \<and> q \<le> dq
   \<longrightarrow> (\<exists>r s1.
          process_seller_order s blanket_id q distributor_name seller_name
            = (Inr r, snd (sync_product_quantity_with_inventory s1 seller_name blanket_id))
        \<and> committed s1 = pending s1
        \<and> distributor_stock (committed s1) (distributor_name, blanket_id) = Some (dq - q)
        \<and> seller_inventory (committed s1) (seller_name, blanket_id)
            = Some ((case seller_inventory (pending s) (seller_name, blanket_id) of
                       None \<Rightarrow> 0 | Some q0 \<Rightarrow> q0) + q)
        \<and> seller_orders (committed s1)
            = seller_orders (pending s)
              @ [\<lparr>so_seller_id = user_id seller_user, so_distributor_id = user_id distributor_user,
                  so_blanket_id = blanket_id, so_quantity = q\<rparr>]
        \<and> (find (\<lambda>p. pfs_seller_id p = user_id seller_user \<and> pfs_blanket_id p = blanket_id)
              (products_for_sale (pending s)) = None
            \<longrightarrow> sync_product_quantity_with_inventory s1 seller_name blanket_id
                  = (Inl (NoProductForSale blanket_id), s1))
        \<and> (find (\<lambda>p. pfs_seller_id p = user_id seller_user \<and> pfs_blanket_id p = blanket_id)
              (products_for_sale (pending s)) \<noteq> None
            \<longrightarrow> (\<exists>listing.
                   get_product_for_sale_by_seller_and_blanket
                     (snd (process_seller_order s blanket_id q distributor_name seller_name))
                     seller_name blanket_id = Some listing
                 \<and> pfs_quantity listing = res_seller_inventory r))
        \<and> distributor_stock
             (committed (snd (process_seller_order s blanket_id q distributor_name seller_name)))
             (distributor_name, blanket_id) = Some (dq - q)
        \<and> seller_inventory
             (committed (snd (process_seller_order s blanket_id q distributor_name seller_name)))
             (seller_name, blanket_id) = Some (res_seller_inventory r))"
proof (intro impI)
  assume a: "find (\<lambda>u. username u = seller_name) (users (pending s)) = Some seller_user
   \<and> find (\<lambda>u. username u = distributor_name) (users (pending s)) = Some distributor_user
   \<and> distributor_stock (pending s) (distributor_name, blanket_id) = Some dq
   \<and> q \<le> dq"
  define sq where "sq = (case seller_inventory (pending s) (seller_name, blanket_id) of
                           None \<Rightarrow> 0 | Some q0 \<Rightarrow> q0) + q"
  define db3 where "db3 = (pending s)\<lparr>
      distributor_stock :=
        (distributor_stock (pending s))((distributor_name, blanket_id) \<mapsto> dq - q),
      seller_inventory := (seller_inventory (pending s))((seller_name, blanket_id) \<mapsto> sq),
      seller_orders := seller_orders (pending s)
        @ [\<lparr>so_seller_id = user_id seller_user, so_distributor_id = user_id distributor_user,
            so_blanket_id = blanket_id, so_quantity = q\<rparr>]\<rparr>"
  define s1 where "s1 = commit (s\<lparr>pending := db3\<rparr>)"
  define r where "r = \<lparr>distributor_remaining_stock = dq - q, res_seller_inventory = sq,
      so_processed_quantity = q, seller_order_id = int (length (seller_orders db3))\<rparr>"
  have run: "process_seller_order s blanket_id q distributor_name seller_name
            = (Inr r, snd (sync_product_quantity_with_inventory s1 seller_name blanket_id))"
    using a by (auto simp: process_seller_order_def Let_def try_sync_def s1_def db3_def sq_def
        r_def split: option.splits)
  have c: "committed s1 = pending s1" and p: "pending s1 = db3"
    by (simp_all add: s1_def commit_def)
  have fin: "snd (process_seller_order s blanket_id q distributor_name seller_name)
               = try_sync s1 seller_name blanket_id"
    by (simp add: run try_sync_def)
  obtain ps where ps: "pending (try_sync s1 seller_name blanket_id)
                         = (pending s1)\<lparr>products_for_sale := ps\<rparr>"
    using try_sync_pending by blast
  have cf: "committed (try_sync s1 seller_name blanket_id)
              = pending (try_sync s1 seller_name blanket_id)"
    by (rule try_sync_committed[OF c])
  have absent: "find (\<lambda>p. pfs_seller_id p = user_id seller_user \<and> pfs_blanket_id p = blanket_id)
              (products_for_sale (pending s)) = None
            \<longrightarrow> sync_product_quantity_with_inventory s1 seller_name blanket_id
                  = (Inl (NoProductForSale blanket_id), s1)"
    using a by (simp add: sync_product_quantity_with_inventory_def p db3_def)
  have present: "find (\<lambda>p. pfs_seller_id p = user_id seller_user \<and> pfs_blanket_id p = blanket_id)
              (products_for_sale (pending s)) \<noteq> None
            \<longrightarrow> (\<exists>listing.
                   get_product_for_sale_by_seller_and_blanket
                     (snd (process_seller_order s blanket_id q distributor_name seller_name))
                     seller_name blanket_id = Some listing
                 \<and> pfs_quantity listing = res_seller_inventory r)"
  proof
    assume "find (\<lambda>p. pfs_seller_id p = user_id seller_user \<and> pfs_blanket_id p = blanket_id)
              (products_for_sale (pending s)) \<noteq> None"
    then obtain l where l: "find (\<lambda>p. pfs_seller_id p = user_id seller_user
                                    \<and> pfs_blanket_id p = blanket_id)
              (products_for_sale (pending s)) = Some l" by blast
    then have k: "pfs_seller_id l = user_id seller_user \<and> pfs_blanket_id l = blanket_id"
      using find_SomeD[of "\<lambda>p. pfs_seller_id p = user_id seller_user \<and> pfs_blanket_id p = blanket_id"
          "products_for_sale (pending s)" l] by simp
    from a l k show "\<exists>listing.
                   get_product_for_sale_by_seller_and_blanket
                     (snd (process_seller_order s blanket_id q distributor_name seller_name))
                     seller_name blanket_id = Some listing
                 \<and> pfs_quantity listing = res_seller_inventory r"
      by (simp add: fin try_sync_def sync_product_quantity_with_inventory_def Let_def
          commit_def get_product_for_sale_by_seller_and_blanket_def find_update_first
          s1_def db3_def r_def)
  qed
  have stock1: "distributor_stock (committed s1) (distributor_name, blanket_id) = Some (dq - q)"
    and inv1: "seller_inventory (committed s1) (seller_name, blanket_id) = Some sq"
    and ord1: "seller_orders (committed s1)
            = seller_orders (pending s)
              @ [\<lparr>so_seller_id = user_id seller_user, so_distributor_id = user_id distributor_user,
                  so_blanket_id = blanket_id, so_quantity = q\<rparr>]"
    by (simp_all add: c p db3_def)
  have stock2: "distributor_stock
             (committed (snd (process_seller_order s blanket_id q distributor_name seller_name)))
             (distributor_name, blanket_id) = Some (dq - q)"
    and inv2: "seller_inventory
             (committed (snd (process_seller_order s blanket_id q distributor_name seller_name)))
             (seller_name, blanket_id) = Some (res_seller_inventory r)"
    by (simp_all add: fin cf ps p db3_def r_def)
  from run c stock1 inv1 ord1 absent present stock2 inv2
  show "\<exists>r s1.
          process_seller_order s blanket_id q distributor_name seller_name
            = (Inr r, snd (sync_product_quantity_with_inventory s1 seller_name blanket_id))
        \<and> committed s1 = pending s1
        \<and> distributor_stock (committed s1) (distributor_name, blanket_id) = Some (dq - q)
        \<and> seller_inventory (committed s1) (seller_name, blanket_id)
            = Some ((case seller_inventory (pending s) (seller_name, blanket_id) of
                       None \<Rightarrow> 0 | Some q0 \<Rightarrow> q0) + q)
        \<and> seller_orders (committed s1)
            = seller_orders (pending s)
              @ [\<lparr>so_seller_id = user_id seller_user, so_distributor_id = user_id distributor_user,
                  so_blanket_id = blanket_id, so_quantity = q\<rparr>]
        \<and> (find (\<lambda>p. pfs_seller_id p = user_id seller_user \<and> pfs_blanket_id p = blanket_id)
              (products_for_sale (pending s)) = None
            \<longrightarrow> sync_product_quantity_with_inventory s1 seller_name blanket_id
                  = (Inl (NoProductForSale blanket_id), s1))
        \<and> (find (\<lambda>p. pfs_seller_id p = user_id seller_user \<and> pfs_blanket_id p = blanket_id)
              (products_for_sale (pending s)) \<noteq> None
            \<longrightarrow> (\<exists>listing.
                   get_product_for_sale_by_seller_and_blanket
                     (snd (process_seller_order s blanket_id q distributor_name seller_name))
                     seller_name blanket_id = Some listing
                 \<and> pfs_quantity listing = res_seller_inventory r))
        \<and> distributor_stock
             (committed (snd (process_seller_order s blanket_id q distributor_name seller_name)))
             (distributor_name, blanket_id) = Some (dq - q)
        \<and> seller_inventory
             (committed (snd (process_seller_order s blanket_id q distributor_name seller_name)))
             (seller_name, blanket_id) = Some (res_seller_inventory r)"
    unfolding sq_def[symmetric]
    by (intro exI[of _ r] exI[of _ s1] conjI) assumption+
qed


theorem resync_failure_swallowed_witness:
  "(\<exists>r. fst (process_seller_order (SessionLocal (published_db\<lparr>products_for_sale := []\<rparr>))
               1 4 ''D1'' ''S1'') = Inr r)
   \<and> sync_product_quantity_with_inventory
        (snd (process_seller_order (SessionLocal (published_db\<lparr>products_for_sale := []\<rparr>))
               1 4 ''D1'' ''S1'')) ''S1'' 1
       = (Inl (NoProductForSale 1),
          snd (process_seller_order (SessionLocal (published_db\<lparr>products_for_sale := []\<rparr>))
               1 4 ''D1'' ''S1''))
   \<and> distributor_stock
        (committed (snd (process_seller_order
           (SessionLocal (published_db\<lparr>products_for_sale := []\<rparr>)) 1 4 ''D1'' ''S1'')))
        (''D1'', 1) = Some 6
   \<and> (\<exists>listing.
         get_product_for_sale_by_seller_and_blanket
           (snd (process_seller_order (SessionLocal published_db) 1 4 ''D1'' ''S1'')) ''S1'' 1
           = Some listing
       \<and> seller_inventory
           (committed (snd (process_seller_order (SessionLocal published_db) 1 4 ''D1'' ''S1'')))
           (''S1'', 1) = Some (pfs_quantity listing))"
proof -
  let ?s = "SessionLocal (published_db\<lparr>products_for_sale := []\<rparr>)"
  let ?t = "SessionLocal published_db"
  have h1: "find (\<lambda>u. username u = ''S1'') (users (pending ?s)) = Some S1
   \<and> find (\<lambda>u. username u = ''D1'') (users (pending ?s)) = Some D1
   \<and> distributor_stock (pending ?s) (''D1'', 1) = Some 10
   \<and> (4::int) \<le> 10"
    by (simp add: published_db_def SessionLocal_def D1_def S1_def)
  have h2: "find (\<lambda>u. username u = ''S1'') (users (pending ?t)) = Some S1
   \<and> find (\<lambda>u. username u = ''D1'') (users (pending ?t)) = Some D1
   \<and> distributor_stock (pending ?t) (''D1'', 1) = Some 10
   \<and> (4::int) \<le> 10"
    by (simp add: published_db_def SessionLocal_def D1_def S1_def)
  have n1: "find (\<lambda>p. pfs_seller_id p = user_id S1 \<and> pfs_blanket_id p = 1)
              (products_for_sale (pending ?s)) = None"
    by (simp add: SessionLocal_def)
  have n2: "find (\<lambda>p. pfs_seller_id p = user_id S1 \<and> pfs_blanket_id p = 1)
              (products_for_sale (pending ?t)) \<noteq> None"
    by (simp add: published_db_def SessionLocal_def S1_def)
  from resync_failure_swallowed[rule_format, OF h1] n1
  obtain r s1 where
      run: "process_seller_order ?s 1 4 ''D1'' ''S1''
              = (Inr r, snd (sync_product_quantity_with_inventory s1 ''S1'' 1))"
    and fail: "sync_product_quantity_with_inventory s1 ''S1'' 1 = (Inl (NoProductForSale 1), s1)"
    and moved: "distributor_stock (committed (snd (process_seller_order ?s 1 4 ''D1'' ''S1'')))
                  (''D1'', 1) = Some (10 - 4)"
    by blast
  have fin: "snd (process_seller_order ?s 1 4 ''D1'' ''S1'') = s1"
    by (simp add: run fail)
  have c1: "\<exists>r. fst (process_seller_order ?s 1 4 ''D1'' ''S1'') = Inr r"
    by (simp add: run)
  have c2: "sync_product_quantity_with_inventory
              (snd (process_seller_order ?s 1 4 ''D1'' ''S1'')) ''S1'' 1
            = (Inl (NoProductForSale 1), snd (process_seller_order ?s 1 4 ''D1'' ''S1''))"
    by (simp add: fin fail)
  have c3: "distributor_stock (committed (snd (process_seller_order ?s 1 4 ''D1'' ''S1'')))
                  (''D1'', 1) = Some 6"
    using moved by simp
  from resync_failure_swallowed[rule_format, OF h2] n2
  have c4: "\<exists>listing.
         get_product_for_sale_by_seller_and_blanket
           (snd (process_seller_order ?t 1 4 ''D1'' ''S1'')) ''S1'' 1 = Some listing
       \<and> seller_inventory (committed (snd (process_seller_order ?t 1 4 ''D1'' ''S1'')))
           (''S1'', 1) = Some (pfs_quantity listing)"
    by force
  from c1 c2 c3 c4 show ?thesis by blast
qed

section \<open>The scenario of the specification\<close>

lemma after_first_transfer_eq:
  "after_first_transfer =
     \<lparr>users = [D1, S1, C1],
      blankets = [1 \<mapsto> \<lparr>stock = 70, production_capacity = 0\<rparr>],
      distributor_stock = [(''D1'', 1) \<mapsto> 30],
      seller_inventory = Map.empty,
      products_for_sale = [],
      distributor_orders = [\<lparr>do_distributor_id = 1, do_blanket_id = 1, do_quantity = 30\<rparr>],
      seller_orders = [],
      customer_orders = []\<rparr>"
  by (simp add: after_first_transfer_def get_db_def SessionLocal_def close_def commit_def
      process_distributor_order_def scenario_db_def D1_def Let_def)

lemma after_second_transfer_eq:
  "after_second_transfer =
     \<lparr>users = [D1, S1, C1],
      blankets = [1 \<mapsto> \<lparr>stock = 70, production_capacity = 0\<rparr>],
      distributor_stock = [(''D1'', 1) \<mapsto> 10],
      seller_inventory = [(''S1'', 1) \<mapsto> 20],
      products_for_sale = [],
      distributor_orders = [\<lparr>do_distributor_id = 1, do_blanket_id = 1, do_quantity = 30\<rparr>],
      seller_orders = [\<lparr>so_seller_id = 2, so_distributor_id = 1, so_blanket_id = 1,
                        so_quantity = 20\<rparr>],
      customer_orders = []\<rparr>"
  by (simp add: after_second_transfer_def after_first_transfer_eq get_db_def SessionLocal_def
      close_def commit_def process_seller_order_def try_sync_def
      sync_product_quantity_with_inventory_def D1_def S1_def C1_def Let_def)

lemma after_publish_eq:
  "after_publish =
     \<lparr>users = [D1, S1, C1],
      blankets = [1 \<mapsto> \<lparr>stock = 70, production_capacity = 0\<rparr>],
      distributor_stock = [(''D1'', 1) \<mapsto> 10],
      seller_inventory = [(''S1'', 1) \<mapsto> 20],
      products_for_sale =
        [\<lparr>pfs_id = 1, pfs_seller_id = 2, pfs_blanket_id = 1, price = Finite 5,
          pfs_quantity = 20, availability = IN_STOCK\<rparr>],
      distributor_orders = [\<lparr>do_distributor_id = 1, do_blanket_id = 1, do_quantity = 30\<rparr>],
      seller_orders = [\<lparr>so_seller_id = 2, so_distributor_id = 1, so_blanket_id = 1,
                        so_quantity = 20\<rparr>],
      customer_orders = []\<rparr>"
  by (simp add: after_publish_def after_second_transfer_eq get_db_def SessionLocal_def
      close_def commit_def create_product_for_sale_def D1_def S1_def C1_def Let_def)

lemma customer_purchase_after_publish:
  "get_db (\<lambda>s. customer_purchase s
                  \<lparr>cp_customer_name = ''C1'', cp_seller_name = ''S1'', cp_blanket_id = 1,
                   cp_quantity = 20, cp_total_value = None\<rparr> C1) after_publish
   = (Inr \<lparr>success = True, remaining_stock = 0, processed_quantity = 20,
           total_value = Some (Finite 100)\<rparr>,
      \<lparr>users = [D1, S1, C1],
       blankets = [1 \<mapsto> \<lparr>stock = 70, production_capacity = 0\<rparr>],
       distributor_stock = [(''D1'', 1) \<mapsto> 10],
       seller_inventory = [(''S1'', 1) \<mapsto> 0],
       products_for_sale =
         [\<lparr>pfs_id = 1, pfs_seller_id = 2, pfs_blanket_id = 1, price = Finite 5,
           pfs_quantity = 0, availability = OUT_OF_STOCK\<rparr>],
       distributor_orders = [\<lparr>do_distributor_id = 1, do_blanket_id = 1, do_quantity = 30\<rparr>],
       seller_orders = [\<lparr>so_seller_id = 2, so_distributor_id = 1, so_blanket_id = 1,
                         so_quantity = 20\<rparr>],
       customer_orders = [\<lparr>co_customer_name = ''C1'', co_seller_name = ''S1'',
                           co_blanket_id = 1, co_quantity = 20, co_status = ''pending'',
                           co_total_value = Some (Finite 100)\<rparr>]\<rparr>)"
  by (simp add: after_publish_eq get_db_def SessionLocal_def close_def commit_def
      customer_purchase_def get_product_for_sale_by_seller_and_blanket_def
      process_customer_order_def try_sync_def sync_product_quantity_with_inventory_def
      float_mul_int_5_20 D1_def S1_def C1_def Let_def)


lemma after_purchase_eq:
  "after_purchase =
      \<lparr>users = [D1, S1, C1],
       blankets = [1 \<mapsto> \<lparr>stock = 70, production_capacity = 0\<rparr>],
       distributor_stock = [(''D1'', 1) \<mapsto> 10],
       seller_inventory = [(''S1'', 1) \<mapsto> 0],
       products_for_sale =
         [\<lparr>pfs_id = 1, pfs_seller_id = 2, pfs_blanket_id = 1, price = Finite 5,
           pfs_quantity = 0, availability = OUT_OF_STOCK\<rparr>],
       distributor_orders = [\<lparr>do_distributor_id = 1, do_blanket_id = 1, do_quantity = 30\<rparr>],
       seller_orders = [\<lparr>so_seller_id = 2, so_distributor_id = 1, so_blanket_id = 1,
                         so_quantity = 20\<rparr>],
       customer_orders = [\<lparr>co_customer_name = ''C1'', co_seller_name = ''S1'',
                           co_blanket_id = 1, co_quantity = 20, co_status = ''pending'',
                           co_total_value = Some (Finite 100)\<rparr>]\<rparr>"
  unfolding after_purchase_def by (subst customer_purchase_after_publish) simp

text \<open>
  Claim C8. The manufacturer holds 100 units of blanket 1 and the lower tiers hold
  nothing. Selling 30 to D1 leaves the manufacturer 70 and D1 30, with one distributor
  order in the journal and no other order. Selling 50 from D1 to S1 fails with the
  insufficient-stock error (30 available, 50 requested) and the database is what it was.
  Selling 20 from D1 to S1 leaves D1 10 and S1 20. S1 publishes at price 5: the listing
  has quantity 20 and is in stock. C1 buys 20 and states no total: the purchase succeeds
  with total 100, S1 is left with 0, and the listing is at quantity 0 and out of stock.
\<close>

theorem supply_chain_scenario:
  "map_option stock (blankets scenario_db 1) = Some 100
   \<and> distributor_stock scenario_db = Map.empty
   \<and> seller_inventory scenario_db = Map.empty
   \<and> products_for_sale scenario_db = []
   \<and> get_db (\<lambda>s. process_distributor_order s 1 30 ''D1'' D1) scenario_db
       = (Inr \<lparr>manufacturer_remaining_stock = 70, res_distributor_stock = 30,
               do_processed_quantity = 30, order_id = 1\<rparr>, after_first_transfer)
   \<and> map_option stock (blankets after_first_transfer 1) = Some 70
   \<and> distributor_stock after_first_transfer (''D1'', 1) = Some 30
   \<and> length (distributor_orders after_first_transfer) = 1
   \<and> seller_orders after_first_transfer = []
   \<and> customer_orders after_first_transfer = []
   \<and> get_db (\<lambda>s. process_seller_order s 1 50 ''D1'' ''S1'') after_first_transfer
       = (Inl (InsufficientDistributorStock 30 50), after_first_transfer)
   \<and> get_db (\<lambda>s. process_seller_order s 1 20 ''D1'' ''S1'') after_first_transfer
       = (Inr \<lparr>distributor_remaining_stock = 10, res_seller_inventory = 20,
               so_processed_quantity = 20, seller_order_id = 1\<rparr>, after_second_transfer)
   \<and> distributor_stock after_second_transfer (''D1'', 1) = Some 10
   \<and> seller_inventory after_second_transfer (''S1'', 1) = Some 20
   \<and> get_db (\<lambda>s. create_product_for_sale s ''S1''
                    \<lparr>pc_blanket_id = 1, pc_price = Finite 5, pc_availability = None\<rparr>)
        after_second_transfer
       = (Inr \<lparr>pfs_id = 1, pfs_seller_id = 2, pfs_blanket_id = 1, price = Finite 5,
               pfs_quantity = 20, availability = IN_STOCK\<rparr>, after_publish)
   \<and> get_db (\<lambda>s. customer_purchase s
                    \<lparr>cp_customer_name = ''C1'', cp_seller_name = ''S1'', cp_blanket_id = 1,
                     cp_quantity = 20, cp_total_value = None\<rparr> C1) after_publish
       = (Inr \<lparr>success = True, remaining_stock = 0, processed_quantity = 20,
               total_value = Some (Finite 100)\<rparr>, after_purchase)
   \<and> seller_inventory after_purchase (''S1'', 1) = Some 0
   \<and> get_product_for_sale_by_seller_and_blanket (SessionLocal after_purchase) ''S1'' 1
       = Some \<lparr>pfs_id = 1, pfs_seller_id = 2, pfs_blanket_id = 1, price = Finite 5,
               pfs_quantity = 0, availability = OUT_OF_STOCK\<rparr>"
proof -
  have start: "map_option stock (blankets scenario_db 1) = Some 100"
    "distributor_stock scenario_db = Map.empty"
    "seller_inventory scenario_db = Map.empty"
    "products_for_sale scenario_db = []"
    by (simp_all add: scenario_db_def)
  have t1: "get_db (\<lambda>s. process_distributor_order s 1 30 ''D1'' D1) scenario_db
       = (Inr \<lparr>manufacturer_remaining_stock = 70, res_distributor_stock = 30,
               do_processed_quantity = 30, order_id = 1\<rparr>, after_first_transfer)"
    by (simp add: after_first_transfer_def get_db_def SessionLocal_def close_def commit_def
        process_distributor_order_def scenario_db_def D1_def Let_def)
  have s1: "map_option stock (blankets after_first_transfer 1) = Some 70"
    "distributor_stock after_first_transfer (''D1'', 1) = Some 30"
    "length (distributor_orders after_first_transfer) = 1"
    "seller_orders after_first_transfer = []"
    "customer_orders after_first_transfer = []"
    by (simp_all add: after_first_transfer_eq)
  have t2: "get_db (\<lambda>s. process_seller_order s 1 50 ''D1'' ''S1'') after_first_transfer
       = (Inl (InsufficientDistributorStock 30 50), after_first_transfer)"
    by (simp add: get_db_def SessionLocal_def close_def process_seller_order_def
        after_first_transfer_eq D1_def S1_def C1_def Let_def)
  have t3: "get_db (\<lambda>s. process_seller_order s 1 20 ''D1'' ''S1'') after_first_transfer
       = (Inr \<lparr>distributor_remaining_stock = 10, res_seller_inventory = 20,
               so_processed_quantity = 20, seller_order_id = 1\<rparr>, after_second_transfer)"
    unfolding after_second_transfer_def
    by (simp add: get_db_def SessionLocal_def close_def commit_def process_seller_order_def
        after_first_transfer_eq D1_def S1_def C1_def Let_def split: prod.splits)
  have s3: "distributor_stock after_second_transfer (''D1'', 1) = Some 10"
    "seller_inventory after_second_transfer (''S1'', 1) = Some 20"
    by (simp_all add: after_second_transfer_eq)
  have t4: "get_db (\<lambda>s. create_product_for_sale s ''S1''
                    \<lparr>pc_blanket_id = 1, pc_price = Finite 5, pc_availability = None\<rparr>)
        after_second_transfer
       = (Inr \<lparr>pfs_id = 1, pfs_seller_id = 2, pfs_blanket_id = 1, price = Finite 5,
               pfs_quantity = 20, availability = IN_STOCK\<rparr>, after_publish)"
    unfolding after_publish_def
    by (simp add: get_db_def SessionLocal_def close_def commit_def create_product_for_sale_def
        after_second_transfer_eq D1_def S1_def C1_def Let_def)
  have t5: "get_db (\<lambda>s. customer_purchase s
                    \<lparr>cp_customer_name = ''C1'', cp_seller_name = ''S1'', cp_blanket_id = 1,
                     cp_quantity = 20, cp_total_value = None\<rparr> C1) after_publish
       = (Inr \<lparr>success = True, remaining_stock = 0, processed_quantity = 20,
               total_value = Some (Finite 100)\<rparr>, after_purchase)"
    by (simp add: customer_purchase_after_publish after_purchase_eq)
  have s5: "seller_inventory after_purchase (''S1'', 1) = Some 0"
    "get_product_for_sale_by_seller_and_blanket (SessionLocal after_purchase) ''S1'' 1
       = Some \<lparr>pfs_id = 1, pfs_seller_id = 2, pfs_blanket_id = 1, price = Finite 5,
               pfs_quantity = 0, availability = OUT_OF_STOCK\<rparr>"
    by (simp_all add: after_purchase_eq get_product_for_sale_by_seller_and_blanket_def
        SessionLocal_def D1_def S1_def C1_def)
  from start t1 s1 t2 t3 s3 t4 t5 s5 show ?thesis
    by (intro conjI) assumption+
qed

section \<open>Availability checks and the order journals\<close>

lemma try_sync_journals:
  assumes "committed s = pending s"
  shows "distributor_orders (committed (try_sync s n b)) = distributor_orders (pending s)"
    and "seller_orders (committed (try_sync s n b)) = seller_orders (pending s)"
    and "customer_orders (committed (try_sync s n b)) = customer_orders (pending s)"
proof -
  obtain ps where "pending (try_sync s n b) = (pending s)\<lparr>products_for_sale := ps\<rparr>"
    using try_sync_pending by blast
  with try_sync_committed[OF assms, of n b]
  show "distributor_orders (committed (try_sync s n b)) = distributor_orders (pending s)"
    and "seller_orders (committed (try_sync s n b)) = seller_orders (pending s)"
    and "customer_orders (committed (try_sync s n b)) = customer_orders (pending s)"
    by simp_all
qed

text \<open>
  Claim C9. The three availability checks (manufacturer, distributor, seller) return the
  session they were given, for every input: they query and write nothing. Each
  successful transfer appends exactly one record to the journal of its tier boundary,
  for the blanket and the quantity of the call, and leaves the other two journals as
  they were.
\<close>

theorem checks_read_only_and_one_journal_entry:
  "snd (check_stock_availability s blanket_id required_quantity) = s
   \<and> snd (check_distributor_stock_availability s distributor_name blanket_id required_quantity) = s
   \<and> snd (check_seller_inventory_availability s seller_name blanket_id required_quantity) = s
   \<and> (process_distributor_order s blanket_id q distributor_name user = (Inr r1, s1) \<longrightarrow>
        distributor_orders (committed s1)
          = distributor_orders (pending s)
            @ [\<lparr>do_distributor_id = user_id user, do_blanket_id = blanket_id, do_quantity = q\<rparr>]
      \<and> seller_orders (committed s1) = seller_orders (pending s)
      \<and> customer_orders (committed s1) = customer_orders (pending s))
   \<and> (process_seller_order s blanket_id q distributor_name seller_name = (Inr r2, s2) \<longrightarrow>
        (\<exists>entry. seller_orders (committed s2) = seller_orders (pending s) @ [entry]
           \<and> so_blanket_id entry = blanket_id \<and> so_quantity entry = q)
      \<and> distributor_orders (committed s2) = distributor_orders (pending s)
      \<and> customer_orders (committed s2) = customer_orders (pending s))
   \<and> (process_customer_order s blanket_id q seller_name customer_name current_user
          provided_total_value = (Inr r3, s3) \<longrightarrow>
        customer_orders (committed s3) = customer_orders (pending s) @ [customer_order r3]
      \<and> co_blanket_id (customer_order r3) = blanket_id
      \<and> co_quantity (customer_order r3) = q
      \<and> distributor_orders (committed s3) = distributor_orders (pending s)
      \<and> seller_orders (committed s3) = seller_orders (pending s))"
proof (intro conjI impI)
  show "snd (check_stock_availability s blanket_id required_quantity) = s"
    by (simp add: check_stock_availability_def split: option.splits)
  show "snd (check_distributor_stock_availability s distributor_name blanket_id
               required_quantity) = s"
    by (simp add: check_distributor_stock_availability_def split: option.splits)
  show "snd (check_seller_inventory_availability s seller_name blanket_id required_quantity) = s"
    by (simp add: check_seller_inventory_availability_def split: option.splits)
next
  assume "process_distributor_order s blanket_id q distributor_name user = (Inr r1, s1)"
  then show "distributor_orders (committed s1)
          = distributor_orders (pending s)
            @ [\<lparr>do_distributor_id = user_id user, do_blanket_id = blanket_id, do_quantity = q\<rparr>]"
    "seller_orders (committed s1) = seller_orders (pending s)"
    "customer_orders (committed s1) = customer_orders (pending s)"
    by (auto simp: process_distributor_order_def commit_def Let_def
        split: option.splits if_splits)
next
  assume "process_seller_order s blanket_id q distributor_name seller_name = (Inr r2, s2)"
  then show "\<exists>entry. seller_orders (committed s2) = seller_orders (pending s) @ [entry]
           \<and> so_blanket_id entry = blanket_id \<and> so_quantity entry = q"
    "distributor_orders (committed s2) = distributor_orders (pending s)"
    "customer_orders (committed s2) = customer_orders (pending s)"
    by (auto simp: process_seller_order_def commit_def Let_def try_sync_journals
        split: option.splits if_splits)
next
  assume "process_customer_order s blanket_id q seller_name customer_name current_user
          provided_total_value = (Inr r3, s3)"
  then show "customer_orders (committed s3) = customer_orders (pending s) @ [customer_order r3]"
    "co_blanket_id (customer_order r3) = blanket_id"
    "co_quantity (customer_order r3) = q"
    "distributor_orders (committed s3) = distributor_orders (pending s)"
    "seller_orders (committed s3) = seller_orders (pending s)"
    by (auto simp: process_customer_order_def commit_def Let_def try_sync_journals
        split: option.splits if_splits)
qed


theorem checks_read_only_and_one_journal_entry_witness:
  "distributor_orders
     (committed (snd (process_distributor_order (SessionLocal scenario_db) 1 30 ''D1'' D1)))
     = distributor_orders scenario_db
       @ [\<lparr>do_distributor_id = 1, do_blanket_id = 1, do_quantity = 30\<rparr>]
   \<and> length (seller_orders
        (committed (snd (process_seller_order (SessionLocal published_db) 1 4 ''D1'' ''S1''))))
     = length (seller_orders published_db) + 1
   \<and> length (customer_orders
        (committed (snd (process_customer_order (SessionLocal published_db) 1 2 ''S1'' ''C1''
                           (Some C1) None))))
     = length (customer_orders published_db) + 1
   \<and> snd (check_stock_availability (SessionLocal scenario_db) 1 30) = SessionLocal scenario_db"
proof -
  let ?x1 = "process_distributor_order (SessionLocal scenario_db) 1 30 ''D1'' D1"
  let ?x2 = "process_seller_order (SessionLocal published_db) 1 4 ''D1'' ''S1''"
  let ?x3 = "process_customer_order (SessionLocal published_db) 1 2 ''S1'' ''C1'' (Some C1) None"
  have h1: "?x1 = (Inr (projr (fst ?x1)), snd ?x1)"
    by (simp add: process_distributor_order_def scenario_db_def D1_def SessionLocal_def
        commit_def Let_def)
  have h2: "?x2 = (Inr (projr (fst ?x2)), snd ?x2)"
    by (simp add: process_seller_order_def published_db_def D1_def S1_def C1_def
        SessionLocal_def commit_def Let_def)
  have h3: "?x3 = (Inr (projr (fst ?x3)), snd ?x3)"
    by (simp add: process_customer_order_def published_db_def D1_def S1_def C1_def
        SessionLocal_def commit_def float_mul_int_5_2 Let_def)
  have p: "pending (SessionLocal scenario_db) = scenario_db"
    "pending (SessionLocal published_db) = published_db"
    by (simp_all add: SessionLocal_def)
  note t = checks_read_only_and_one_journal_entry
  have c1: "distributor_orders (committed (snd ?x1))
     = distributor_orders scenario_db
       @ [\<lparr>do_distributor_id = 1, do_blanket_id = 1, do_quantity = 30\<rparr>]"
    using t[THEN conjunct2, THEN conjunct2, THEN conjunct2, THEN conjunct1, rule_format, OF h1]
    by (simp add: p D1_def)
  have c2: "length (seller_orders (committed (snd ?x2))) = length (seller_orders published_db) + 1"
    using t[THEN conjunct2, THEN conjunct2, THEN conjunct2, THEN conjunct2, THEN conjunct1,
        rule_format, OF h2]
    by (auto simp: p)
  have c3: "length (customer_orders (committed (snd ?x3)))
              = length (customer_orders published_db) + 1"
    using t[THEN conjunct2, THEN conjunct2, THEN conjunct2, THEN conjunct2, THEN conjunct2,
        rule_format, OF h3]
    by (auto simp: p)
  have c4: "snd (check_stock_availability (SessionLocal scenario_db) 1 30)
              = SessionLocal scenario_db"
    using t[THEN conjunct1] by blast
  from c1 c2 c3 c4 show ?thesis by blast
qed

end
